theory Spec2Isabelle
  imports Main
begin

section \<open>Python strings\<close>

text \<open>
  A Python \<open>str\<close> is a sequence of Unicode code points, and \<open>len\<close> counts code points.
  It is modelled as a list of natural numbers, one per code point. The literals of the
  source are written with \<open>lit\<close>, which maps an ASCII literal to its code points; the
  accented letters of the Spanish messages are spliced in by number
  (225 a-acute, 233 e-acute, 237 i-acute, 243 o-acute, 250 u-acute, 193 A-acute).
\<close>

type_synonym str = "nat list"

definition lit :: "string \<Rightarrow> str" where
  "lit s = map of_char s"

text \<open>Truth value of \<open>not x\<close> where \<open>x\<close> is \<open>None\<close> or a \<open>str\<close>.\<close>

definition vacio :: "str option \<Rightarrow> bool" where
  "vacio x = (x = None \<or> x = Some [])"

text \<open>\<open>str.isspace\<close> on one code point, and \<open>str.strip()\<close> without arguments.\<close>

definition es_espacio :: "nat \<Rightarrow> bool" where
  "es_espacio c = ((9 \<le> c \<and> c \<le> 13) \<or> (28 \<le> c \<and> c \<le> 32) \<or> c = 133 \<or> c = 160
     \<or> c = 5760 \<or> (8192 \<le> c \<and> c \<le> 8202) \<or> c = 8232 \<or> c = 8233 \<or> c = 8239
     \<or> c = 8287 \<or> c = 12288)"

definition strip :: "str \<Rightarrow> str" where
  "strip s = rev (dropWhile es_espacio (rev (dropWhile es_espacio s)))"

text \<open>\<open>needle in haystack\<close> on strings: the needle occurs as a contiguous run.\<close>

fun contiene :: "str \<Rightarrow> str \<Rightarrow> bool" where
  "contiene n [] = (n = [])"
| "contiene n (x # xs) = (take (length n) (x # xs) = n \<or> contiene n xs)"

text \<open>\<open>s.startswith(p)\<close>.\<close>

definition empieza_con :: "str \<Rightarrow> str \<Rightarrow> bool" where
  "empieza_con p s = (take (length p) s = p)"

text \<open>\<open>str(i)\<close> for a non-negative integer, as the f-strings of the validator need it.\<close>

fun decimal :: "nat \<Rightarrow> str" where
  "decimal n = (if n < 10 then [48 + n] else decimal (n div 10) @ [48 + n mod 10])"

declare decimal.simps [simp del]


section \<open>componente\_busqueda\_clientes.py\<close>

subsection \<open>normalizar\_cuit\_dni\<close>

text \<open>
  The regular expression \<open>[^0-9]\<close> removes every character that is not one of the ten
  ASCII digits (code points 48 to 57). The argument is \<open>None\<close> or a string;
  \<open>not cuit_dni\<close> holds for \<open>None\<close> and for the empty string, and \<open>str\<close> of a
  string is the string itself.
\<close>

definition es_digito :: "nat \<Rightarrow> bool" where
  "es_digito c = (48 \<le> c \<and> c \<le> 57)"

definition normalizar_cuit_dni :: "str option \<Rightarrow> str" where
  "normalizar_cuit_dni cuit_dni =
     (case cuit_dni of None \<Rightarrow> []
      | Some s \<Rightarrow> if s = [] then [] else filter es_digito s)"


subsection \<open>The table \<open>clientes\<close> and the rows the search returns\<close>

text \<open>
  Every column is nullable: \<open>None\<close> is SQL \<open>NULL\<close>. The columns the search copies into
  its result are shared by the stored row and the returned dictionary.
\<close>

record datos_cliente =
  id_cliente :: int
  tipo_cliente :: "str option"
  nombre_fantasia :: "str option"
  razon_social :: "str option"
  nombre_apellido :: "str option"
  cuit_dni :: "str option"
  telefono :: "str option"
  direccion :: "str option"
  email :: "str option"
  contacto_nombre :: "str option"
  comercial_asignado :: "str list option"

record fila = datos_cliente +
  visible_para_todos :: "bool option"
  activo :: "bool option"
  busqueda_texto :: "str option"

record resultado = datos_cliente +
  nombre_display :: "str option"
  relevancia_score :: int


subsection \<open>SQL operators used by the query\<close>

text \<open>
  \<open>LOWER\<close> maps a text character by character with the case mapping of the locale of
  the database. The mapping is part of the storage (see below) and is a parameter here.
\<close>

definition sql_lower :: "(nat \<Rightarrow> nat) \<Rightarrow> str \<Rightarrow> str" where
  "sql_lower minuscula s = map minuscula s"

text \<open>
  \<open>LIKE\<close>: in a pattern \<open>%\<close> (37) matches any run of characters, \<open>_\<close> (95) any single
  character, and a backslash (92) makes the next character literal. The functions below
  follow the matcher of PostgreSQL step by step, because it raises the error
  \<open>LIKE pattern must not end with escape character\<close> only when the comparison reaches a
  backslash that ends the pattern: pattern and text advance together; after a \<open>%\<close> the
  wildcards that follow are skipped, and the text is scanned for a position where the
  rest of the pattern matches. The outcome \<open>Abortar\<close> says that the text ended too early,
  so that no later position can match; as a condition it is false.
\<close>

definition comodin :: "nat \<Rightarrow> bool" where
  "comodin c = (c = 37 \<or> c = 95 \<or> c = 92)"

datatype coincidencia = Cierto | Falso | Abortar | Escape_final

datatype salto = Sin_texto | Resto str str

fun saltar :: "str \<Rightarrow> str \<Rightarrow> salto" where
  "saltar [] t = Resto [] t"
| "saltar (c # p) t =
     (if c = 37 then saltar p t
      else if c = 95 then (case t of [] \<Rightarrow> Sin_texto | x # u \<Rightarrow> saltar p u)
      else Resto (c # p) t)"

function coincidir :: "str \<Rightarrow> str \<Rightarrow> coincidencia"
  and explorar :: "nat \<Rightarrow> str \<Rightarrow> str \<Rightarrow> coincidencia" where
  "coincidir [] [] = Cierto"
| "coincidir [] (x # t) = Falso"
| "coincidir (c # p) [] = (if list_all (\<lambda>d. d = 37) (c # p) then Cierto else Abortar)"
| "coincidir (c # p) (x # t) =
     (if c = 92 then
        (case p of [] \<Rightarrow> Escape_final
         | d # q \<Rightarrow> if d \<noteq> x then Falso else coincidir q t)
      else if c = 37 then
        (case saltar p (x # t) of
           Sin_texto \<Rightarrow> Abortar
         | Resto q u \<Rightarrow>
             if q = [] then Cierto
             else if q = [92] then Escape_final
             else explorar (if hd q = 92 then q ! 1 else hd q) q u)
      else if c = 95 then coincidir p t
      else if c \<noteq> x then Falso
      else coincidir p t)"
| "explorar primero q [] = Abortar"
| "explorar primero q (x # u) =
     (if x = primero then
        (case coincidir q (x # u) of Falso \<Rightarrow> explorar primero q u | m \<Rightarrow> m)
      else explorar primero q u)"
  by pat_completeness auto
termination
proof -
  have s: "saltar p t = Resto q u \<Longrightarrow> length q \<le> length p \<and> length u \<le> length t"
    for p t q u
    by (induction p t rule: saltar.induct) (auto split: if_splits list.splits)
  show ?thesis
    by (relation "measure (\<lambda>a. case a of
            Inl (p, t) \<Rightarrow> 2 * (length p + length t)
          | Inr (primero, q, u) \<Rightarrow> 2 * (length q + length u) + 1)")
       (auto dest: s)
qed

text \<open>
  \<open>x LIKE p\<close> and \<open>x ILIKE p\<close> as conditions: true only when \<open>x\<close> is not \<open>NULL\<close> and
  matches; and whether evaluating them raises the error. \<open>ILIKE\<close> compares the
  lower-cased text with the lower-cased pattern.
\<close>

definition like :: "str option \<Rightarrow> str \<Rightarrow> bool" where
  "like x p = (case x of None \<Rightarrow> False | Some t \<Rightarrow> coincidir p t = Cierto)"

definition like_falla :: "str option \<Rightarrow> str \<Rightarrow> bool" where
  "like_falla x p = (case x of None \<Rightarrow> False | Some t \<Rightarrow> coincidir p t = Escape_final)"

definition ilike :: "(nat \<Rightarrow> nat) \<Rightarrow> str option \<Rightarrow> str \<Rightarrow> bool" where
  "ilike minuscula x p = like (map_option (sql_lower minuscula) x) (sql_lower minuscula p)"

definition ilike_falla :: "(nat \<Rightarrow> nat) \<Rightarrow> str option \<Rightarrow> str \<Rightarrow> bool" where
  "ilike_falla minuscula x p =
     like_falla (map_option (sql_lower minuscula) x) (sql_lower minuscula p)"

definition coalesce :: "'a option \<Rightarrow> 'a option \<Rightarrow> 'a option" where
  "coalesce a b = (case a of None \<Rightarrow> b | Some x \<Rightarrow> Some x)"


subsection \<open>buscar\_clientes\_db: the query\<close>

text \<open>
  The four \<open>CASE\<close> expressions of \<open>relevancia_score\<close>. A \<open>WHEN\<close> branch is taken only
  when its condition is true, so a comparison with \<open>NULL\<close> falls through to the next
  branch. The arguments are the positional parameters of \<open>cur.execute\<close>, in order.
\<close>

definition bono_comercial :: "str option \<Rightarrow> 'a fila_scheme \<Rightarrow> int" where
  "bono_comercial comercial f =
     (case (comercial, comercial_asignado f) of
        (Some c, Some asignados) \<Rightarrow> if c \<in> set asignados then 1000 else 0
      | _ \<Rightarrow> 0)"

definition bono_visible :: "'a fila_scheme \<Rightarrow> int" where
  "bono_visible f = (if visible_para_todos f = Some True then 500 else 0)"

definition bono_cuit :: "str \<Rightarrow> str \<Rightarrow> 'a fila_scheme \<Rightarrow> int" where
  "bono_cuit cuit_exacto cuit_parcial f =
     (if cuit_dni f = Some cuit_exacto then 300
      else if like (cuit_dni f) cuit_parcial then 200
      else 0)"

text \<open>The name the first branch of the name bonus compares with the query.\<close>

definition nombre_comparado :: "'a datos_cliente_scheme \<Rightarrow> str option" where
  "nombre_comparado f =
     coalesce (nombre_fantasia f) (coalesce (nombre_apellido f) (razon_social f))"

definition bono_nombre :: "(nat \<Rightarrow> nat) \<Rightarrow> str \<Rightarrow> str \<Rightarrow> str \<Rightarrow> 'a fila_scheme \<Rightarrow> int" where
  "bono_nombre minuscula patron_exacto patron_inicio patron_parcial f =
     (if like (map_option (sql_lower minuscula) (nombre_comparado f))
              (sql_lower minuscula patron_exacto) then 250
      else if like (map_option (sql_lower minuscula) (busqueda_texto f))
                   (sql_lower minuscula patron_inicio) then 150
      else if ilike minuscula (busqueda_texto f) patron_parcial then 100
      else 0)"

definition puntaje ::
  "(nat \<Rightarrow> nat) \<Rightarrow> str option \<Rightarrow> str \<Rightarrow> str \<Rightarrow> str \<Rightarrow> str \<Rightarrow> str \<Rightarrow> 'a fila_scheme \<Rightarrow> int" where
  "puntaje minuscula comercial cuit_exacto cuit_parcial patron_exacto patron_inicio
       patron_parcial f =
     bono_comercial comercial f + bono_visible f + bono_cuit cuit_exacto cuit_parcial f
       + bono_nombre minuscula patron_exacto patron_inicio patron_parcial f"

text \<open>The derived column \<open>nombre_display\<close>.\<close>

definition mostrar_nombre :: "'a fila_scheme \<Rightarrow> str option" where
  "mostrar_nombre f =
     (if tipo_cliente f = Some (lit ''Paciente'') then nombre_apellido f
      else coalesce (nombre_fantasia f) (razon_social f))"

text \<open>The \<open>WHERE\<close> clause of the common table expression.\<close>

definition filtro ::
  "(nat \<Rightarrow> nat) \<Rightarrow> str \<Rightarrow> str \<Rightarrow> str option \<Rightarrow> str option \<Rightarrow> 'a fila_scheme \<Rightarrow> bool" where
  "filtro minuscula general1 general2 tipo1 tipo2 f =
     (activo f = Some True
      \<and> (ilike minuscula (busqueda_texto f) general1 \<or> ilike minuscula (cuit_dni f) general2)
      \<and> (tipo1 = None \<or> (tipo_cliente f \<noteq> None \<and> tipo_cliente f = tipo2)))"

text \<open>
  Whether evaluating the statement on a row raises the error of \<open>LIKE\<close>. The conditions
  are evaluated in the order they are written, \<open>AND\<close>, \<open>OR\<close> and \<open>CASE\<close> stopping at the
  operand that decides them, and the score is evaluated for the rows that pass the
  \<open>WHERE\<close> clause.
\<close>

definition filtro_falla :: "(nat \<Rightarrow> nat) \<Rightarrow> str \<Rightarrow> str \<Rightarrow> 'a fila_scheme \<Rightarrow> bool" where
  "filtro_falla minuscula general1 general2 f =
     (activo f = Some True
      \<and> (ilike_falla minuscula (busqueda_texto f) general1
          \<or> (\<not> ilike minuscula (busqueda_texto f) general1
              \<and> ilike_falla minuscula (cuit_dni f) general2)))"

definition puntaje_falla ::
  "(nat \<Rightarrow> nat) \<Rightarrow> str \<Rightarrow> str \<Rightarrow> str \<Rightarrow> str \<Rightarrow> str \<Rightarrow> 'a fila_scheme \<Rightarrow> bool" where
  "puntaje_falla minuscula cuit_exacto cuit_parcial patron_exacto patron_inicio patron_parcial f =
     ((cuit_dni f \<noteq> Some cuit_exacto \<and> like_falla (cuit_dni f) cuit_parcial)
      \<or> like_falla (map_option (sql_lower minuscula) (nombre_comparado f))
           (sql_lower minuscula patron_exacto)
      \<or> (\<not> like (map_option (sql_lower minuscula) (nombre_comparado f))
               (sql_lower minuscula patron_exacto)
          \<and> (like_falla (map_option (sql_lower minuscula) (busqueda_texto f))
                (sql_lower minuscula patron_inicio)
              \<or> (\<not> like (map_option (sql_lower minuscula) (busqueda_texto f))
                       (sql_lower minuscula patron_inicio)
                  \<and> ilike_falla minuscula (busqueda_texto f) patron_parcial))))"

definition fila_falla ::
  "(nat \<Rightarrow> nat) \<Rightarrow> str \<Rightarrow> str \<Rightarrow> str \<Rightarrow> str \<Rightarrow> str \<Rightarrow> str \<Rightarrow> str \<Rightarrow> str option \<Rightarrow> str option
     \<Rightarrow> 'a fila_scheme \<Rightarrow> bool" where
  "fila_falla minuscula cuit_exacto cuit_parcial patron_exacto patron_inicio patron_parcial
       general1 general2 tipo1 tipo2 f =
     (filtro_falla minuscula general1 general2 f
      \<or> (filtro minuscula general1 general2 tipo1 tipo2 f
          \<and> puntaje_falla minuscula cuit_exacto cuit_parcial patron_exacto patron_inicio
               patron_parcial f))"

text \<open>One row of \<open>clientes_relevantes\<close>: the selected columns and the score.\<close>

definition relevante ::
  "(nat \<Rightarrow> nat) \<Rightarrow> str option \<Rightarrow> str \<Rightarrow> str \<Rightarrow> str \<Rightarrow> str \<Rightarrow> str \<Rightarrow> 'a fila_scheme \<Rightarrow> resultado" where
  "relevante minuscula comercial cuit_exacto cuit_parcial patron_exacto patron_inicio
       patron_parcial f =
     \<lparr> id_cliente = id_cliente f, tipo_cliente = tipo_cliente f,
       nombre_fantasia = nombre_fantasia f, razon_social = razon_social f,
       nombre_apellido = nombre_apellido f, cuit_dni = cuit_dni f,
       telefono = telefono f, direccion = direccion f, email = email f,
       contacto_nombre = contacto_nombre f, comercial_asignado = comercial_asignado f,
       nombre_display = mostrar_nombre f,
       relevancia_score =
         puntaje minuscula comercial cuit_exacto cuit_parcial patron_exacto patron_inicio
           patron_parcial f \<rparr>"

text \<open>
  \<open>ORDER BY relevancia_score DESC, nombre_display ASC\<close>. Names are compared code point
  by code point and \<open>NULL\<close> sorts last, as it does in ascending order. Rows that agree on
  both keys keep the order of the table.
\<close>

fun menor_igual :: "str \<Rightarrow> str \<Rightarrow> bool" where
  "menor_igual [] ys = True"
| "menor_igual (x # xs) [] = False"
| "menor_igual (x # xs) (y # ys) = (x < y \<or> (x = y \<and> menor_igual xs ys))"

definition nombre_antes :: "str option \<Rightarrow> str option \<Rightarrow> bool" where
  "nombre_antes a b =
     (case b of None \<Rightarrow> True
      | Some y \<Rightarrow> (case a of None \<Rightarrow> False | Some x \<Rightarrow> menor_igual x y))"

definition precede :: "resultado \<Rightarrow> resultado \<Rightarrow> bool" where
  "precede a b =
     (relevancia_score a > relevancia_score b
      \<or> (relevancia_score a = relevancia_score b
          \<and> nombre_antes (nombre_display a) (nombre_display b)))"

fun insertar :: "resultado \<Rightarrow> resultado list \<Rightarrow> resultado list" where
  "insertar r [] = [r]"
| "insertar r (x # xs) = (if precede r x then r # x # xs else x # insertar r xs)"

definition ordenar :: "resultado list \<Rightarrow> resultado list" where
  "ordenar rs = foldr insertar rs []"

text \<open>
  The whole statement, with the case mapping of the database and the eleven parameters
  of \<open>cur.execute\<close>. The server rejects a \<open>LIMIT\<close> outside the 64-bit range when it plans
  the statement and a negative \<open>LIMIT\<close> when it starts to run it; with \<open>LIMIT 0\<close> it
  returns no row without reading the table; otherwise it reads the table, and the
  statement fails when a row raises the error of \<open>LIKE\<close>. An error is returned as its
  message.
\<close>

definition consulta ::
  "(nat \<Rightarrow> nat) \<Rightarrow> fila list \<Rightarrow> str option \<Rightarrow> str \<Rightarrow> str \<Rightarrow> str \<Rightarrow> str \<Rightarrow> str \<Rightarrow> str \<Rightarrow> str
     \<Rightarrow> str option \<Rightarrow> str option \<Rightarrow> int \<Rightarrow> str + resultado list" where
  "consulta minuscula tabla comercial cuit_exacto cuit_parcial patron_exacto patron_inicio
       patron_parcial general1 general2 tipo1 tipo2 limite =
     (if limite \<ge> 2 ^ 63 \<or> limite < - (2 ^ 63) then Inl (lit ''bigint out of range'')
      else if limite < 0 then Inl (lit ''LIMIT must not be negative'')
      else if limite = 0 then Inr []
      else if \<exists>f\<in>set tabla.
                fila_falla minuscula cuit_exacto cuit_parcial patron_exacto patron_inicio
                  patron_parcial general1 general2 tipo1 tipo2 f
        then Inl (lit ''LIKE pattern must not end with escape character'')
      else Inr (take (nat limite)
             (ordenar
               (filter (\<lambda>r. relevancia_score r > 0)
                 (map (relevante minuscula comercial cuit_exacto cuit_parcial
                         patron_exacto patron_inicio patron_parcial)
                   (filter (filtro minuscula general1 general2 tipo1 tipo2) tabla))))))"


subsection \<open>Storage and effects\<close>

text \<open>
  The database is reached through \<open>psycopg2\<close>. The state of the storage is the table,
  the case mapping of its locale and, when a call is going to raise, the message of the
  exception: \<open>fallo_conexion\<close> for \<open>psycopg2.connect\<close>, \<open>fallo_ejecucion\<close> for
  \<open>cur.execute\<close>. Each function returns its value together with the effects it
  performed, in order: connections opened, statements executed, connections closed, and
  messages shown with \<open>st.error\<close>.
\<close>

record almacen =
  fallo_conexion :: "str option"
  fallo_ejecucion :: "str option"
  minuscula :: "nat \<Rightarrow> nat"
  clientes :: "fila list"

datatype efecto = Conectar | Ejecutar | Cerrar | StError str


subsection \<open>buscar\_clientes\_db\<close>

text \<open>
  A query of fewer than two characters returns before the \<open>try\<close> block. Inside it, any
  exception is caught, shown with \<open>st.error\<close>, and the function returns the empty list.
  The three text patterns are the raw query, the query followed by \<open>%\<close>, and the query
  between two \<open>%\<close>; the identifier patterns use the normalised query.
\<close>

definition error_busqueda :: "str \<Rightarrow> str" where
  "error_busqueda e = [10060, 32] @ lit ''Error en b'' @ [250] @ lit ''squeda: '' @ e"

definition buscar_clientes_db ::
  "almacen \<Rightarrow> str \<Rightarrow> str option \<Rightarrow> str option \<Rightarrow> int \<Rightarrow> resultado list \<times> efecto list" where
  "buscar_clientes_db db texto_busqueda tipo comercial limite =
     (if length texto_busqueda < 2 then ([], [])
      else case fallo_conexion db of
        Some e \<Rightarrow> ([], [Conectar, StError (error_busqueda e)])
      | None \<Rightarrow>
         (let texto_normalizado = normalizar_cuit_dni (Some texto_busqueda);
              patron_exacto = texto_busqueda;
              patron_inicio = texto_busqueda @ [37];
              patron_parcial = [37] @ texto_busqueda @ [37]
          in case fallo_ejecucion db of
               Some e \<Rightarrow> ([], [Conectar, Ejecutar, StError (error_busqueda e)])
             | None \<Rightarrow>
                (case consulta (minuscula db) (clientes db) comercial texto_normalizado
                        ([37] @ texto_normalizado @ [37]) patron_exacto patron_inicio
                        patron_parcial patron_parcial patron_parcial tipo tipo limite of
                   Inl e \<Rightarrow> ([], [Conectar, Ejecutar, StError (error_busqueda e)])
                 | Inr resultados \<Rightarrow> (resultados, [Conectar, Ejecutar, Cerrar]))))"


subsection \<open>verificar\_cuit\_dni\_existe\<close>

definition error_verificar :: "str \<Rightarrow> str" where
  "error_verificar e = [10060, 32] @ lit ''Error al verificar CUIT/DNI: '' @ e"

definition verificar_cuit_dni_existe :: "almacen \<Rightarrow> str option \<Rightarrow> bool \<times> efecto list" where
  "verificar_cuit_dni_existe db cuit =
     (let cuit_normalizado = normalizar_cuit_dni cuit
      in if cuit_normalizado = [] then (False, [])
         else case fallo_conexion db of
           Some e \<Rightarrow> (False, [Conectar, StError (error_verificar e)])
         | None \<Rightarrow>
            (case fallo_ejecucion db of
               Some e \<Rightarrow> (False, [Conectar, Ejecutar, StError (error_verificar e)])
             | None \<Rightarrow>
                (length (filter (\<lambda>f. cuit_dni f = Some cuit_normalizado) (clientes db)) > 0,
                 [Conectar, Ejecutar, Cerrar])))"


section \<open>formulario\_ST\_V13.py: validar\_campos\_obligatorios\<close>

text \<open>
  The dictionary \<open>data\<close> is built by the form: its text fields hold strings, the entry
  \<open>fallas_problemas\<close> a list of strings and the entry \<open>equipos\<close> a list of dictionaries of
  strings. A key that is absent is \<open>None\<close>, which is what \<open>data.get\<close> returns for it.
\<close>

record solicitud =
  campos :: "str \<rightharpoonup> str"
  fallas_problemas :: "str list option"
  equipos :: "(str \<rightharpoonup> str) list option"

text \<open>\<open>data.get(k)\<close> and \<open>data.get(k, '')\<close> on the text fields.\<close>

definition get :: "solicitud \<Rightarrow> string \<Rightarrow> str option" where
  "get d k = campos d (lit k)"

definition get_o :: "solicitud \<Rightarrow> string \<Rightarrow> str" where
  "get_o d k = (case campos d (lit k) of None \<Rightarrow> [] | Some v \<Rightarrow> v)"

text \<open>\<open>if c: errores.append(m)\<close>, as the list of what it appends.\<close>

definition si :: "bool \<Rightarrow> str \<Rightarrow> str list" where
  "si c m = (if c then [m] else [])"

definition Institucion :: str where
  "Institucion = lit ''Instituci'' @ [243] @ lit ''n''"

definition errores_colaborador :: "solicitud \<Rightarrow> str list" where
  "errores_colaborador d =
     si (vacio (get d ''area_solicitante''))
        ([193] @ lit ''rea Solicitante es obligatorio'')
     @ si (vacio (get d ''solicitante'')
           \<or> get d ''solicitante'' = Some (lit ''Seleccionar solicitante...''))
        (lit ''Solicitante es obligatorio'')
     @ si (vacio (get d ''equipo_corresponde_a''))
        ([39] @ lit ''El equipo corresponde a'' @ [39] @ lit '' es obligatorio'')
     @ (let equipo_corresponde_a = get_o d ''equipo_corresponde_a'' in
        if equipo_corresponde_a = lit ''Distribuidor'' then
          si (vacio (get d ''nombre_fantasia''))
             (lit ''Nombre de Fantas'' @ [237] @ lit ''a (Distribuidor) es obligatorio'')
          @ si (vacio (get d ''razon_social''))
             (lit ''Raz'' @ [243] @ lit ''n Social (Distribuidor) es obligatorio'')
          @ si (vacio (get d ''cuit'')) (lit ''CUIT (Distribuidor) es obligatorio'')
          @ si (vacio (get d ''contacto_nombre''))
             (lit ''Nombre de contacto (Distribuidor) es obligatorio'')
          @ si (vacio (get d ''contacto_telefono''))
             (lit ''Tel'' @ [233] @ lit ''fono de contacto (Distribuidor) es obligatorio'')
          @ si (vacio (get d ''contacto_tecnico''))
             (lit ''Debe indicar si quiere contacto t'' @ [233] @ lit ''cnico (Distribuidor)'')
          @ si (vacio (get d ''motivo_solicitud''))
             (lit ''Motivo de la solicitud (Distribuidor) es obligatorio'')
        else if equipo_corresponde_a = Institucion then
          si (vacio (get d ''nombre_fantasia''))
             (lit ''Nombre del Hospital/Cl'' @ [237] @ lit ''nica (Instituci'' @ [243]
                @ lit ''n) es obligatorio'')
          @ si (vacio (get d ''razon_social''))
             (lit ''Raz'' @ [243] @ lit ''n Social (Instituci'' @ [243] @ lit ''n) es obligatorio'')
          @ si (vacio (get d ''contacto_nombre''))
             (lit ''Nombre de contacto (Instituci'' @ [243] @ lit ''n) es obligatorio'')
          @ si (vacio (get d ''contacto_telefono''))
             (lit ''Tel'' @ [233] @ lit ''fono de contacto (Instituci'' @ [243]
                @ lit ''n) es obligatorio'')
          @ si (vacio (get d ''contacto_tecnico''))
             (lit ''Debe indicar si quiere contacto t'' @ [233] @ lit ''cnico (Instituci''
                @ [243] @ lit ''n)'')
          @ si (vacio (get d ''motivo_solicitud''))
             (lit ''Motivo de la solicitud (Instituci'' @ [243] @ lit ''n) es obligatorio'')
        else if equipo_corresponde_a = lit ''Paciente/Particular'' then
          si (vacio (get d ''nombre_apellido_paciente''))
             (lit ''Nombre y Apellido (Paciente) es obligatorio'')
          @ si (vacio (get d ''telefono_paciente''))
             (lit ''Tel'' @ [233] @ lit ''fono (Paciente) es obligatorio'')
          @ si (vacio (get d ''equipo_origen''))
             (lit ''Origen del equipo (Paciente) es obligatorio'')
          @ si (vacio (get d ''motivo_solicitud''))
             (lit ''Motivo de la solicitud (Paciente) es obligatorio'')
        else [])"

definition errores_distribuidor :: "solicitud \<Rightarrow> str list" where
  "errores_distribuidor d =
     si (vacio (get d ''nombre_fantasia''))
        (lit ''Nombre de Fantas'' @ [237] @ lit ''a es obligatorio'')
     @ si (vacio (get d ''razon_social'')) (lit ''Raz'' @ [243] @ lit ''n Social es obligatorio'')
     @ si (vacio (get d ''cuit'')) (lit ''CUIT es obligatorio'')
     @ si (vacio (get d ''contacto_nombre'')) (lit ''Nombre de contacto es obligatorio'')
     @ si (vacio (get d ''contacto_telefono''))
        (lit ''Tel'' @ [233] @ lit ''fono de contacto es obligatorio'')
     @ si (vacio (get d ''comercial_syemed'')
           \<or> get d ''comercial_syemed'' = Some (lit ''Seleccionar comercial...''))
        (lit ''Comercial de contacto en Syemed es obligatorio'')
     @ si (vacio (get d ''contacto_tecnico''))
        (lit ''Debe indicar si quiere contacto t'' @ [233] @ lit ''cnico'')
     @ si (vacio (get d ''motivo_solicitud'')) (lit ''Motivo de la solicitud es obligatorio'')"

definition errores_institucion :: "solicitud \<Rightarrow> str list" where
  "errores_institucion d =
     si (vacio (get d ''nombre_fantasia''))
        (lit ''Nombre del Hospital/Cl'' @ [237] @ lit ''nica/Sanatorio es obligatorio'')
     @ si (vacio (get d ''razon_social'')) (lit ''Raz'' @ [243] @ lit ''n Social es obligatorio'')
     @ si (vacio (get d ''contacto_nombre'')) (lit ''Nombre de contacto es obligatorio'')
     @ si (vacio (get d ''contacto_telefono''))
        (lit ''Tel'' @ [233] @ lit ''fono de contacto es obligatorio'')
     @ si (vacio (get d ''comercial_syemed'')
           \<or> get d ''comercial_syemed'' = Some (lit ''Seleccionar comercial...''))
        (lit ''Comercial de contacto en Syemed es obligatorio'')
     @ si (vacio (get d ''contacto_tecnico''))
        (lit ''Debe indicar si quiere contacto t'' @ [233] @ lit ''cnico'')
     @ si (vacio (get d ''motivo_solicitud'')) (lit ''Motivo de la solicitud es obligatorio'')"

definition errores_paciente :: "solicitud \<Rightarrow> str list" where
  "errores_paciente d =
     si (vacio (get d ''nombre_apellido_paciente'')) (lit ''Nombre y Apellido es obligatorio'')
     @ si (vacio (get d ''telefono_paciente''))
        (lit ''Tel'' @ [233] @ lit ''fono de contacto es obligatorio'')
     @ si (vacio (get d ''equipo_origen'')) (lit ''Origen del equipo es obligatorio'')
     @ si (vacio (get d ''motivo_solicitud'')) (lit ''Motivo de la solicitud es obligatorio'')"

text \<open>The checks that depend on \<open>motivo_solicitud\<close>.\<close>

definition Servicio_Tecnico :: str where
  "Servicio_Tecnico =
     lit ''Servicio T'' @ [233] @ lit ''cnico (reparaciones de equipos en general)''"

definition Servicio_Post_Venta :: str where
  "Servicio_Post_Venta = lit ''Servicio Post Venta (para alguno de nuestros productos adquiridos)''"

definition error_opcion :: str where
  "error_opcion =
     lit ''Debe seleccionar al menos una opci'' @ [243] @ lit ''n o especificar en '' @ [39]
       @ lit ''Otros'' @ [39] @ lit '' el motivo de su solicitud''"

definition errores_motivo :: "solicitud \<Rightarrow> str list" where
  "errores_motivo d =
     (let motivo = get_o d ''motivo_solicitud'' in
      if motivo = lit ''Cambio de Alquiler'' then
        si (strip (get_o d ''motivo_cambio_alquiler'') = [])
           (lit ''Debe especificar el motivo del cambio de alquiler'')
      else if motivo = lit ''Cambio por falla de funcionamiento cr'' @ [237] @ lit ''tica'' then
        si (strip (get_o d ''detalle_fallo'') = [])
           (lit ''Debe describir la falla cr'' @ [237] @ lit ''tica que justifica el cambio'')
      else if motivo \<in> set [Servicio_Tecnico, Servicio_Post_Venta] then
        (let fallas = (case fallas_problemas d of None \<Rightarrow> [] | Some l \<Rightarrow> l);
             detalle = get_o d ''detalle_fallo''
         in si (fallas = [] \<and> strip detalle = []) error_opcion)
      else [])"

text \<open>
  The checks on the equipment. An entry counts when its type is set and is not the
  placeholder of the selector; the entries that count are numbered from 1.
\<close>

definition equipo_valido :: "(str \<rightharpoonup> str) \<Rightarrow> bool" where
  "equipo_valido eq =
     (\<not> vacio (eq (lit ''tipo_equipo''))
      \<and> eq (lit ''tipo_equipo'') \<noteq> Some (lit ''Seleccionar tipo...''))"

definition error_equipos :: str where
  "error_equipos = lit ''Debe registrar al menos un equipo''"

definition errores_equipo :: "nat \<Rightarrow> (str \<rightharpoonup> str) \<Rightarrow> str list" where
  "errores_equipo i equipo =
     si (vacio (equipo (lit ''marca''))
         \<or> equipo (lit ''marca'') = Some (lit ''Seleccionar marca...''))
        (lit ''La marca del equipo '' @ decimal i @ lit '' es obligatoria'')
     @ si (vacio (equipo (lit ''modelo''))
           \<or> equipo (lit ''modelo'') = Some (lit ''Seleccionar modelo...''))
        (lit ''El modelo del equipo '' @ decimal i @ lit '' es obligatorio'')
     @ si (vacio (equipo (lit ''numero_serie'')))
        (lit ''El n'' @ [250] @ lit ''mero de serie del equipo '' @ decimal i
           @ lit '' es obligatorio'')"

fun errores_enumerados :: "nat \<Rightarrow> (str \<rightharpoonup> str) list \<Rightarrow> str list" where
  "errores_enumerados i [] = []"
| "errores_enumerados i (equipo # resto) =
     errores_equipo i equipo @ errores_enumerados (Suc i) resto"

definition errores_equipos :: "solicitud \<Rightarrow> str list" where
  "errores_equipos d =
     (let equipos_validos =
            filter equipo_valido (case equipos d of None \<Rightarrow> [] | Some l \<Rightarrow> l)
      in if equipos_validos = [] then [error_equipos]
         else errores_enumerados 1 equipos_validos)"

text \<open>The function: the accumulated list, and whether it is empty.\<close>

definition errores_de :: "solicitud \<Rightarrow> str list" where
  "errores_de d =
     si (vacio (get d ''email'')) (lit ''El correo electr'' @ [243] @ lit ''nico es obligatorio'')
     @ si (vacio (get d ''quien_completa''))
        (lit ''Debe indicar qui'' @ [233] @ lit ''n completa la solicitud'')
     @ (let quien_completa = get_o d ''quien_completa'' in
        if quien_completa = lit ''Colaborador de Syemed'' then errores_colaborador d
        else if quien_completa = lit ''Distribuidor'' then errores_distribuidor d
        else if quien_completa = Institucion then errores_institucion d
        else if quien_completa = lit ''Paciente/Particular'' then errores_paciente d
        else [])
     @ errores_motivo d
     @ errores_equipos d"

definition validar_campos_obligatorios :: "solicitud \<Rightarrow> bool \<times> str list" where
  "validar_campos_obligatorios d = (let errores = errores_de d in (length errores = 0, errores))"


section \<open>Example data\<close>

text \<open>
  A stored customer and a storage that answers, used to run the functions. The case
  mapping of the example storage covers Basic Latin, Latin-1, Latin Extended-A, Greek
  and Cyrillic.
\<close>

definition minuscula_demo :: "nat \<Rightarrow> nat" where
  "minuscula_demo c =
     (if (65 \<le> c \<and> c \<le> 90) \<or> (192 \<le> c \<and> c \<le> 222 \<and> c \<noteq> 215) then c + 32
      else if c = 304 then 105
      else if ((256 \<le> c \<and> c \<le> 311) \<or> (330 \<le> c \<and> c \<le> 375)) \<and> c mod 2 = 0 then c + 1
      else if ((313 \<le> c \<and> c \<le> 328) \<or> (377 \<le> c \<and> c \<le> 382)) \<and> c mod 2 = 1 then c + 1
      else if c = 376 then 255
      else if 913 \<le> c \<and> c \<le> 939 \<and> c \<noteq> 930 then c + 32
      else if 1024 \<le> c \<and> c \<le> 1039 then c + 80
      else if 1040 \<le> c \<and> c \<le> 1071 then c + 32
      else c)"

definition fila_demo :: fila where
  "fila_demo = \<lparr> id_cliente = 1, tipo_cliente = Some (lit ''Distribuidor''),
     nombre_fantasia = Some (lit ''Acme''), razon_social = None, nombre_apellido = None,
     cuit_dni = Some (lit ''20304050607''), telefono = None, direccion = None, email = None,
     contacto_nombre = None, comercial_asignado = Some [lit ''Ana''],
     visible_para_todos = Some True, activo = Some True,
     busqueda_texto = Some (lit ''acme 20304050607'') \<rparr>"

definition almacen_demo :: almacen where
  "almacen_demo = \<lparr> fallo_conexion = None, fallo_ejecucion = None,
                     minuscula = minuscula_demo, clientes = [fila_demo] \<rparr>"


text \<open>
  A second table: a customer of another agent that is visible to all and matches the
  query \<open>acme\<close> by name, and a customer assigned to the agent Ana that matches it only
  inside the searchable text.
\<close>

definition fila_ajena :: fila where
  "fila_ajena = fila_demo\<lparr>comercial_asignado := Some [lit ''Luis'']\<rparr>"

definition fila_asignada :: fila where
  "fila_asignada = \<lparr> id_cliente = 2, tipo_cliente = Some (lit ''Paciente''),
     nombre_fantasia = None, razon_social = None, nombre_apellido = Some (lit ''Zoe Acmez''),
     cuit_dni = None, telefono = None, direccion = None, email = None,
     contacto_nombre = None, comercial_asignado = Some [lit ''Ana''],
     visible_para_todos = Some False, activo = Some True,
     busqueda_texto = Some (lit ''zoe acmez'') \<rparr>"

definition almacen_dos :: almacen where
  "almacen_dos = \<lparr> fallo_conexion = None, fallo_ejecucion = None,
                    minuscula = minuscula_demo, clientes = [fila_ajena, fila_asignada] \<rparr>"


text \<open>
  A patient that carries a trade name beside the full name: the displayed name is the
  full name, and the name the query compares first is the trade name.
\<close>

definition fila_mixta :: fila where
  "fila_mixta = \<lparr> id_cliente = 3, tipo_cliente = Some (lit ''Paciente''),
     nombre_fantasia = Some (lit ''Acme''), razon_social = None,
     nombre_apellido = Some (lit ''Eva Paz''),
     cuit_dni = None, telefono = None, direccion = None, email = None,
     contacto_nombre = None, comercial_asignado = None,
     visible_para_todos = Some False, activo = Some True,
     busqueda_texto = Some (lit ''eva paz acme'') \<rparr>"

definition almacen_mixto :: almacen where
  "almacen_mixto = almacen_demo\<lparr>clientes := [fila_mixta]\<rparr>"


text \<open>
  A customer whose searchable text ends in a percent sign, found by a query that ends
  in a backslash, and the same customer under a name that starts like the query.
\<close>

definition fila_escape :: fila where
  "fila_escape = \<lparr> id_cliente = 4, tipo_cliente = Some (lit ''Distribuidor''),
     nombre_fantasia = Some (lit ''Zeta''), razon_social = None, nombre_apellido = None,
     cuit_dni = None, telefono = None, direccion = None, email = None,
     contacto_nombre = None, comercial_asignado = None,
     visible_para_todos = Some False, activo = Some True,
     busqueda_texto = Some (lit ''zeta ac%'') \<rparr>"

definition almacen_escape :: almacen where
  "almacen_escape = almacen_demo\<lparr>clientes := [fila_escape]\<rparr>"

definition almacen_escape_falla :: almacen where
  "almacen_escape_falla =
     almacen_demo\<lparr>clientes := [fila_escape\<lparr>nombre_fantasia := Some (lit ''Acme'')\<rparr>]\<rparr>"





text \<open>
  A customer whose name is written in Polish capitals (321 L with stroke, 211 O acute,
  377 Z acute), to be found by the same word in small letters (322, 243, 378).
\<close>

definition fila_lodz :: fila where
  "fila_lodz = \<lparr> id_cliente = 6, tipo_cliente = Some (lit ''Distribuidor''),
     nombre_fantasia = Some [321, 211, 68, 377], razon_social = None, nombre_apellido = None,
     cuit_dni = None, telefono = None, direccion = None, email = None,
     contacto_nombre = None, comercial_asignado = None,
     visible_para_todos = Some False, activo = Some True,
     busqueda_texto = Some [322, 243, 100, 378] \<rparr>"

definition almacen_lodz :: almacen where
  "almacen_lodz = almacen_demo\<lparr>clientes := [fila_lodz]\<rparr>"


text \<open>
  A complete submission of a distributor with one complete equipment entry, no issue
  selected and a free-text detail; the same with a blank detail, with a placeholder
  equipment, and a submission of a patient without telephone.
\<close>

definition equipo_demo :: "str \<rightharpoonup> str" where
  "equipo_demo = map_of
     [(lit ''tipo_equipo'', lit ''Concentrador''), (lit ''marca'', lit ''Philips''),
      (lit ''modelo'', lit ''EverFlo''), (lit ''numero_serie'', lit ''SN123'')]"

definition solicitud_demo :: solicitud where
  "solicitud_demo =
     \<lparr> campos = map_of
         [(lit ''email'', lit ''ana@acme.com''), (lit ''quien_completa'', lit ''Distribuidor''),
          (lit ''nombre_fantasia'', lit ''Acme''), (lit ''razon_social'', lit ''Acme SA''),
          (lit ''cuit'', lit ''20304050607''), (lit ''contacto_nombre'', lit ''Ana''),
          (lit ''contacto_telefono'', lit ''1144445555''),
          (lit ''comercial_syemed'', lit ''Luis''), (lit ''contacto_tecnico'', lit ''No''),
          (lit ''motivo_solicitud'', Servicio_Tecnico),
          (lit ''detalle_fallo'', lit ''No enciende'')],
       fallas_problemas = Some [],
       equipos = Some [equipo_demo] \<rparr>"

definition sin_detalle :: solicitud where
  "sin_detalle = solicitud_demo\<lparr>campos := (campos solicitud_demo)(lit ''detalle_fallo'' \<mapsto> lit ''  '')\<rparr>"

definition sin_equipo :: solicitud where
  "sin_equipo = solicitud_demo
     \<lparr>equipos := Some [map_of [(lit ''tipo_equipo'', lit ''Seleccionar tipo...'')], Map.empty]\<rparr>"

definition paciente_demo :: solicitud where
  "paciente_demo =
     \<lparr> campos = map_of
         [(lit ''email'', lit ''eva@correo.com''), (lit ''quien_completa'', lit ''Paciente/Particular''),
          (lit ''nombre_apellido_paciente'', lit ''Eva Paz''),
          (lit ''equipo_origen'', lit ''Compra''),
          (lit ''motivo_solicitud'', lit ''Baja de Alquiler'')],
       fallas_problemas = None,
       equipos = Some [equipo_demo] \<rparr>"


section \<open>Properties of the identifier normalisation and of the early returns\<close>

lemma filter_digitos_id: "\<forall>c\<in>set s. es_digito c \<Longrightarrow> filter es_digito s = s"
  by (induction s) auto

text \<open>
  C8. Normalising a string that consists of digits only returns it unchanged, and for
  every input, \<open>None\<close> included, normalising the normalised value changes nothing.
\<close>

theorem normalizar_idempotente:
  "((\<forall>c\<in>set s. es_digito c) \<longrightarrow> normalizar_cuit_dni (Some s) = s)
   \<and> normalizar_cuit_dni (Some (normalizar_cuit_dni x)) = normalizar_cuit_dni x"
  by (auto simp: normalizar_cuit_dni_def filter_digitos_id split: option.splits)

theorem normalizar_idempotente_witness:
  "list_all es_digito (lit ''20304050607'')
   \<and> normalizar_cuit_dni (Some (lit ''20304050607'')) = lit ''20304050607''
   \<and> normalizar_cuit_dni (Some (normalizar_cuit_dni (Some (lit ''20-30405060-7''))))
       = lit ''20304050607''"
  using normalizar_idempotente [of "lit ''20304050607''" "Some (lit ''20-30405060-7'')"]
  by (simp add: lit_def es_digito_def normalizar_cuit_dni_def list_all_iff)

text \<open>
  C7. A query of length 0 or 1 returns the empty list and performs no effect at all: no
  connection is opened and no statement is executed, whatever the storage, the type
  filter, the agent and the limit are.
\<close>

theorem busqueda_corta:
  "length texto_busqueda < 2 \<Longrightarrow>
     buscar_clientes_db db texto_busqueda tipo comercial limite = ([], [])"
  by (simp add: buscar_clientes_db_def)

theorem busqueda_corta_witness:
  "length (lit ''a'') < 2
   \<and> buscar_clientes_db almacen_demo (lit ''a'') None (Some (lit ''Ana'')) 15 = ([], [])"
  using busqueda_corta [of "lit ''a''" almacen_demo None "Some (lit ''Ana'')" 15]
  by (simp add: lit_def)

text \<open>
  C10. For \<open>None\<close> and for every string without a digit (the empty string included) the
  duplicate check answers \<open>False\<close> and performs no effect: the database is not queried.
\<close>

theorem verificar_sin_digitos:
  "verificar_cuit_dni_existe db None = (False, [])
   \<and> ((\<forall>c\<in>set s. \<not> es_digito c) \<longrightarrow> verificar_cuit_dni_existe db (Some s) = (False, []))"
  by (auto simp: verificar_cuit_dni_existe_def normalizar_cuit_dni_def Let_def filter_empty_conv)

theorem verificar_sin_digitos_witness:
  "list_all (\<lambda>c. \<not> es_digito c) (lit ''--'')
   \<and> verificar_cuit_dni_existe almacen_demo (Some (lit ''--'')) = (False, [])"
  using verificar_sin_digitos [of almacen_demo "lit ''--''"]
  by (simp add: lit_def es_digito_def list_all_iff)


section \<open>Properties of the relevance score and of the ranking\<close>

subsection \<open>Ordering of the result\<close>

lemma bonos_no_negativos:
  "0 \<le> bono_comercial co f" "0 \<le> bono_visible f" "0 \<le> bono_cuit ce cp f"
  "0 \<le> bono_nombre lc pe pi pp f"
  by (auto simp: bono_comercial_def bono_visible_def bono_cuit_def bono_nombre_def
           split: option.splits)

lemma puntaje_asignado:
  assumes "comercial_asignado f = Some asignados" and "ag \<in> set asignados"
  shows "1000 \<le> puntaje lc (Some ag) ce cp pe pi pp f"
proof -
  have "bono_comercial (Some ag) f = 1000"
    using assms by (simp add: bono_comercial_def)
  then show ?thesis
    using bonos_no_negativos(2) [of f] bonos_no_negativos(3) [of ce cp f]
      bonos_no_negativos(4) [of lc pe pi pp f]
    by (simp add: puntaje_def)
qed

lemma set_insertar: "set (insertar r xs) = insert r (set xs)"
  by (induction xs) auto

lemma set_ordenar: "set (ordenar xs) = set xs"
  by (induction xs) (auto simp: ordenar_def set_insertar)

lemma insertar_descendente:
  "sorted_wrt (\<lambda>a b. relevancia_score b \<le> relevancia_score a) xs \<Longrightarrow>
     sorted_wrt (\<lambda>a b. relevancia_score b \<le> relevancia_score a) (insertar r xs)"
proof (induction xs)
  case Nil
  then show ?case by simp
next
  case (Cons x xs)
  show ?case
  proof (cases "precede r x")
    case True
    then have "relevancia_score x \<le> relevancia_score r" by (auto simp: precede_def)
    with Cons.prems True show ?thesis by fastforce
  next
    case False
    then have "relevancia_score r \<le> relevancia_score x" by (auto simp: precede_def)
    with Cons False show ?thesis by (auto simp: set_insertar)
  qed
qed

lemma ordenar_descendente:
  "sorted_wrt (\<lambda>a b. relevancia_score b \<le> relevancia_score a) (ordenar xs)"
  by (induction xs) (auto simp: ordenar_def insertar_descendente)

lemma consulta_forma:
  assumes "consulta lc tabla co ce cp pe pi pp g1 g2 t1 t2 l = Inr rs"
  shows "sorted_wrt (\<lambda>a b. relevancia_score b \<le> relevancia_score a) rs
     \<and> (\<forall>r\<in>set rs. \<exists>f\<in>set tabla. r = relevante lc co ce cp pe pi pp f)"
proof -
  from assms have rs: "rs = take (nat l) (ordenar (filter (\<lambda>r. relevancia_score r > 0)
                 (map (relevante lc co ce cp pe pi pp) (filter (filtro lc g1 g2 t1 t2) tabla))))"
    by (auto simp: consulta_def split: if_splits)
  have "sorted_wrt (\<lambda>a b. relevancia_score b \<le> relevancia_score a) rs"
    unfolding rs by (intro sorted_wrt_take ordenar_descendente)
  moreover have "\<forall>r\<in>set rs. \<exists>f\<in>set tabla. r = relevante lc co ce cp pe pi pp f"
  proof
    fix r assume "r \<in> set rs"
    then have "r \<in> set (ordenar (filter (\<lambda>r. relevancia_score r > 0)
                 (map (relevante lc co ce cp pe pi pp) (filter (filtro lc g1 g2 t1 t2) tabla))))"
      unfolding rs by (rule in_set_takeD)
    then show "\<exists>f\<in>set tabla. r = relevante lc co ce cp pe pi pp f"
      by (auto simp: set_ordenar)
  qed
  ultimately show ?thesis by blast
qed

lemma buscar_forma:
  assumes "buscar_clientes_db db texto tipo co l = (rs, ef)"
  shows "sorted_wrt (\<lambda>a b. relevancia_score b \<le> relevancia_score a) rs
     \<and> (\<forall>r\<in>set rs. \<exists>f\<in>set (clientes db).
           r = relevante (minuscula db) co (normalizar_cuit_dni (Some texto))
                 ([37] @ normalizar_cuit_dni (Some texto) @ [37])
                 texto (texto @ [37]) ([37] @ texto @ [37]) f)"
  using assms consulta_forma
  by (auto simp: buscar_clientes_db_def Let_def split: if_splits option.splits sum.splits)


lemma menor_igual_total: "menor_igual a b \<or> menor_igual b a"
  by (induction a b rule: menor_igual.induct) auto

lemma menor_igual_trans: "menor_igual a b \<Longrightarrow> menor_igual b c \<Longrightarrow> menor_igual a c"
proof (induction a b arbitrary: c rule: menor_igual.induct)
  case (1 ys)
  then show ?case by simp
next
  case (2 x xs)
  then show ?case by simp
next
  case (3 x xs y ys)
  then show ?case by (cases c) auto
qed

lemma nombre_antes_total: "nombre_antes a b \<or> nombre_antes b a"
  using menor_igual_total by (auto simp: nombre_antes_def split: option.splits)

lemma nombre_antes_trans: "nombre_antes a b \<Longrightarrow> nombre_antes b c \<Longrightarrow> nombre_antes a c"
  using menor_igual_trans by (auto simp: nombre_antes_def split: option.splits)

lemma precede_total: "precede a b \<or> precede b a"
  using nombre_antes_total [of "nombre_display a" "nombre_display b"]
  by (auto simp: precede_def)

lemma precede_trans: "precede a b \<Longrightarrow> precede b c \<Longrightarrow> precede a c"
  using nombre_antes_trans [of "nombre_display a" "nombre_display b" "nombre_display c"]
  by (auto simp: precede_def)

lemma insertar_ordenado:
  "sorted_wrt precede xs \<Longrightarrow> sorted_wrt precede (insertar r xs)"
proof (induction xs)
  case Nil
  then show ?case by simp
next
  case (Cons x xs)
  show ?case
  proof (cases "precede r x")
    case True
    with Cons.prems show ?thesis using precede_trans by auto
  next
    case False
    then have "precede x r" using precede_total by blast
    with Cons False show ?thesis by (auto simp: set_insertar)
  qed
qed

lemma ordenar_ordenado: "sorted_wrt precede (ordenar xs)"
  by (induction xs) (auto simp: ordenar_def insertar_ordenado)

lemma buscar_ordenado:
  assumes "buscar_clientes_db db texto tipo co l = (rs, ef)"
  shows "sorted_wrt precede rs"
proof (cases "rs = []")
  case True
  then show ?thesis by simp
next
  case False
  with assms obtain xs where "rs = take (nat l) (ordenar xs)"
    by (auto simp: buscar_clientes_db_def consulta_def Let_def
             split: if_splits option.splits sum.splits)
  then show ?thesis by (simp add: sorted_wrt_take ordenar_ordenado)
qed

text \<open>
  C1. For the agent \<open>ag\<close>, the score the query computes for a stored customer whose
  assigned agents contain \<open>ag\<close> is at least 1000. The list the search returns is ordered
  by score descending, then by displayed name ascending; in it, every row whose assigned
  agents contain \<open>ag\<close> has a score of at least 1000 and stands before every row of the
  list whose score is below 1000, whatever the text bonuses of the two rows are.
\<close>

theorem asignados_primero:
  assumes b: "buscar_clientes_db db texto tipo (Some ag) limite = (rs, ef)"
  shows "(\<forall>f :: fila. \<forall>asignados. comercial_asignado f = Some asignados \<and> ag \<in> set asignados
            \<longrightarrow> 1000 \<le> puntaje (minuscula db) (Some ag) (normalizar_cuit_dni (Some texto))
                         ([37] @ normalizar_cuit_dni (Some texto) @ [37])
                         texto (texto @ [37]) ([37] @ texto @ [37]) f)
     \<and> sorted_wrt precede rs
     \<and> (\<forall>r\<in>set rs. \<forall>asignados. comercial_asignado r = Some asignados \<and> ag \<in> set asignados
            \<longrightarrow> 1000 \<le> relevancia_score r)
     \<and> (\<forall>i<length rs. \<forall>j<length rs. \<forall>asignados.
            comercial_asignado (rs ! i) = Some asignados \<and> ag \<in> set asignados
            \<and> relevancia_score (rs ! j) < 1000 \<longrightarrow> i < j)"
proof -
  note f = buscar_forma [OF b]
  have a: "\<forall>r\<in>set rs. \<forall>asignados. comercial_asignado r = Some asignados \<and> ag \<in> set asignados
            \<longrightarrow> 1000 \<le> relevancia_score r"
  proof (intro ballI allI impI)
    fix r asignados
    assume r: "r \<in> set rs" and c: "comercial_asignado r = Some asignados \<and> ag \<in> set asignados"
    from f r obtain fl :: fila where "r = relevante (minuscula db) (Some ag)
                 (normalizar_cuit_dni (Some texto))
                 ([37] @ normalizar_cuit_dni (Some texto) @ [37])
                 texto (texto @ [37]) ([37] @ texto @ [37]) fl" by blast
    with c show "1000 \<le> relevancia_score r"
      by (simp add: relevante_def puntaje_asignado)
  qed
  have o: "\<forall>i<length rs. \<forall>j<length rs. \<forall>asignados.
            comercial_asignado (rs ! i) = Some asignados \<and> ag \<in> set asignados
            \<and> relevancia_score (rs ! j) < 1000 \<longrightarrow> i < j"
  proof (intro allI impI)
    fix i j asignados
    assume i: "i < length rs" and j: "j < length rs"
      and c: "comercial_asignado (rs ! i) = Some asignados \<and> ag \<in> set asignados
            \<and> relevancia_score (rs ! j) < 1000"
    from a i c have hi: "1000 \<le> relevancia_score (rs ! i)" by (meson nth_mem)
    show "i < j"
    proof (rule ccontr)
      assume "\<not> i < j"
      then have "j = i \<or> j < i" by auto
      then have "relevancia_score (rs ! i) \<le> relevancia_score (rs ! j)"
      proof
        assume "j = i" then show ?thesis by simp
      next
        assume "j < i"
        with f i show ?thesis by (auto simp: sorted_wrt_iff_nth_less)
      qed
      with hi c show False by simp
    qed
  qed
  have p: "\<forall>f :: fila. \<forall>asignados. comercial_asignado f = Some asignados \<and> ag \<in> set asignados
            \<longrightarrow> 1000 \<le> puntaje (minuscula db) (Some ag) (normalizar_cuit_dni (Some texto))
                         ([37] @ normalizar_cuit_dni (Some texto) @ [37])
                         texto (texto @ [37]) ([37] @ texto @ [37]) f"
    by (simp add: puntaje_asignado)
  from p a o buscar_ordenado [OF b] show ?thesis by blast
qed

theorem asignados_primero_witness:
  "map id_cliente (fst (buscar_clientes_db almacen_dos (lit ''acme'') None (Some (lit ''Ana'')) 15))
     = [2, 1]
   \<and> map relevancia_score
       (fst (buscar_clientes_db almacen_dos (lit ''acme'') None (Some (lit ''Ana'')) 15))
     = [1100, 950]
   \<and> map comercial_asignado
       (fst (buscar_clientes_db almacen_dos (lit ''acme'') None (Some (lit ''Ana'')) 15))
     = [Some [lit ''Ana''], Some [lit ''Luis'']]
   \<and> lit ''Ana'' \<in> set [lit ''Ana'']
   \<and> 1000 \<le> relevancia_score
       (fst (buscar_clientes_db almacen_dos (lit ''acme'') None (Some (lit ''Ana'')) 15) ! 0)
   \<and> relevancia_score
       (fst (buscar_clientes_db almacen_dos (lit ''acme'') None (Some (lit ''Ana'')) 15) ! 1)
       < 1000"
proof -
  define rs where
    "rs = fst (buscar_clientes_db almacen_dos (lit ''acme'') None (Some (lit ''Ana'')) 15)"
  have b: "buscar_clientes_db almacen_dos (lit ''acme'') None (Some (lit ''Ana'')) 15
     = (rs, snd (buscar_clientes_db almacen_dos (lit ''acme'') None (Some (lit ''Ana'')) 15))"
    by (simp add: rs_def)
  have v: "map id_cliente rs = [2, 1]" "map relevancia_score rs = [1100, 950]"
    "map comercial_asignado rs = [Some [lit ''Ana''], Some [lit ''Luis'']]"
    unfolding rs_def by code_simp+
  have l: "length rs = 2"
    using arg_cong [OF v(1), of length] by simp
  have m: "rs ! 0 \<in> set rs"
    using l by (intro nth_mem) simp
  have "comercial_asignado (rs ! 0) = map comercial_asignado rs ! 0"
    using l by simp
  then have c: "comercial_asignado (rs ! 0) = Some [lit ''Ana'']"
    unfolding v(3) by simp
  have "relevancia_score (rs ! 1) = map relevancia_score rs ! 1"
    using l by simp
  then have d: "relevancia_score (rs ! 1) = 950"
    unfolding v(2) by simp
  from asignados_primero [OF b] m c have "1000 \<le> relevancia_score (rs ! 0)"
    by (simp del: append.simps)
  with v d show ?thesis unfolding rs_def by simp
qed


subsection \<open>Properties of the pattern matcher\<close>

lemma coincidir_vacio: "coincidir [] t = (if t = [] then Cierto else Falso)"
  by (cases t) auto

lemma coincidir_todo: "coincidir [37] t = Cierto"
  by (cases t) auto

lemma coincidir_literales:
  "\<forall>c\<in>set n. \<not> comodin c \<Longrightarrow>
     coincidir (n @ r) t =
       (if take (length n) t = n then coincidir r (drop (length n) t)
        else if take (length t) n = t then Abortar else Falso)"
proof (induction n arbitrary: t)
  case Nil
  then show ?case by simp
next
  case (Cons c n)
  then have c: "c \<noteq> 37" "c \<noteq> 95" "c \<noteq> 92" by (auto simp: comodin_def)
  show ?case
  proof (cases t)
    case Nil
    then show ?thesis using c by simp
  next
    case (Cons x u)
    then show ?thesis using c Cons.IH [of u] Cons.prems by auto
  qed
qed

lemma coincidir_exacto:
  assumes "\<forall>c\<in>set n. \<not> comodin c"
  shows "coincidir n t = Cierto \<longleftrightarrow> t = n" and "coincidir n t \<noteq> Escape_final"
  using coincidir_literales [OF assms, of "[]" t]
  by (auto simp: coincidir_vacio split: if_splits)

lemma coincidir_inicio:
  assumes "\<forall>c\<in>set n. \<not> comodin c"
  shows "coincidir (n @ [37]) t = Cierto \<longleftrightarrow> take (length n) t = n"
    and "coincidir (n @ [37]) t \<noteq> Escape_final"
    and "coincidir (n @ [37]) t = Abortar \<Longrightarrow> length t < length n"
  using coincidir_literales [OF assms, of "[37]" t]
  by (auto simp: coincidir_todo split: if_splits)
     (metis length_take min.absorb2 nat_le_linear order_le_neq_trans take_all)

lemma explorar_literales:
  assumes n: "\<forall>c\<in>set (d # n). \<not> comodin c"
  shows "explorar d (d # n @ [37]) u = Cierto \<longleftrightarrow> contiene (d # n) u"
    and "explorar d (d # n @ [37]) u \<noteq> Escape_final"
proof -
  note i = coincidir_inicio [OF n, simplified]
  have "(explorar d (d # n @ [37]) u = Cierto \<longleftrightarrow> contiene (d # n) u)
        \<and> explorar d (d # n @ [37]) u \<noteq> Escape_final"
  proof (induction u)
    case Nil
    then show ?case by simp
  next
    case (Cons x u)
    show ?case
    proof (cases "x = d")
      case False
      then show ?thesis using Cons by auto
    next
      case True
      show ?thesis
      proof (cases "coincidir (d # n @ [37]) (x # u)")
        case Cierto
        then show ?thesis using True i(1) [of "x # u"] by simp
      next
        case Falso
        then have "take (Suc (length n)) (x # u) \<noteq> d # n"
          using i(1) [of "x # u"] by auto
        then show ?thesis using True Falso Cons by simp
      next
        case Abortar
        then have l: "length (x # u) < Suc (length n)" using i(3) [of "x # u"] by simp
        have "\<not> contiene (d # n) (x # u)"
        proof
          assume "contiene (d # n) (x # u)"
          then have "length (d # n) \<le> length (x # u)"
          proof (induction u arbitrary: x)
            case Nil
            then show ?case by (auto split: if_splits)
          next
            case (Cons y u)
            then show ?case by (auto split: if_splits) (metis length_Cons length_take min.cobounded1 le_SucI)+
          qed
          with l show False by simp
        qed
        then show ?thesis using True Abortar by simp
      next
        case Escape_final
        then show ?thesis using i(2) [of "x # u"] by simp
      qed
    qed
  qed
  then show "explorar d (d # n @ [37]) u = Cierto \<longleftrightarrow> contiene (d # n) u"
    and "explorar d (d # n @ [37]) u \<noteq> Escape_final" by simp_all
qed

lemma contiene_nil: "contiene [] h"
  by (cases h) auto

lemma coincidir_parcial:
  assumes n: "\<forall>c\<in>set n. \<not> comodin c"
  shows "coincidir (37 # n @ [37]) t = Cierto \<longleftrightarrow> contiene n t"
    and "coincidir (37 # n @ [37]) t \<noteq> Escape_final"
proof -
  have "(coincidir (37 # n @ [37]) t = Cierto \<longleftrightarrow> contiene n t)
        \<and> coincidir (37 # n @ [37]) t \<noteq> Escape_final"
  proof (cases n)
    case Nil
    then show ?thesis by (cases t) (auto simp: contiene_nil)
  next
    case (Cons d m)
    with n have d: "d \<noteq> 37" "d \<noteq> 95" "d \<noteq> 92" by (auto simp: comodin_def)
    show ?thesis
    proof (cases t)
      case Nil
      then show ?thesis using Cons d by simp
    next
      case t: (Cons x u)
      have "coincidir (37 # n @ [37]) t = explorar d (d # m @ [37]) t"
        using Cons d t by simp
      then show ?thesis
        using explorar_literales [of d m t] n Cons by simp
    qed
  qed
  then show "coincidir (37 # n @ [37]) t = Cierto \<longleftrightarrow> contiene n t"
    and "coincidir (37 # n @ [37]) t \<noteq> Escape_final" by simp_all
qed

lemma like_exacto:
  "\<forall>c\<in>set n. \<not> comodin c \<Longrightarrow> like x n \<longleftrightarrow> x = Some n"
  by (cases x) (auto simp: like_def coincidir_exacto)

lemma like_inicio:
  "\<forall>c\<in>set n. \<not> comodin c \<Longrightarrow>
     like x (n @ [37]) \<longleftrightarrow> (case x of None \<Rightarrow> False | Some t \<Rightarrow> empieza_con n t)"
  by (cases x) (auto simp: like_def coincidir_inicio empieza_con_def)

lemma like_parcial:
  "\<forall>c\<in>set n. \<not> comodin c \<Longrightarrow>
     like x (37 # n @ [37]) \<longleftrightarrow> (case x of None \<Rightarrow> False | Some t \<Rightarrow> contiene n t)"
  by (cases x) (auto simp: like_def coincidir_parcial)

lemma like_falla_literal:
  assumes "\<forall>c\<in>set n. \<not> comodin c"
  shows "\<not> like_falla x n" "\<not> like_falla x (n @ [37])" "\<not> like_falla x (37 # n @ [37])"
  using assms
  by (cases x; simp add: like_falla_def coincidir_exacto coincidir_inicio coincidir_parcial)+

lemma saltar_final:
  "saltar p t = Resto q u \<Longrightarrow> p = [] \<or> last p = 37 \<Longrightarrow> q = [] \<or> last q = 37"
  by (induction p t rule: saltar.induct) (auto split: if_splits list.splits)

lemma sin_escape_final:
  "(p = [] \<or> last p = 37 \<longrightarrow> coincidir p t \<noteq> Escape_final)"
  "(q = [] \<or> last q = 37 \<longrightarrow> explorar primero q u \<noteq> Escape_final)"
proof (induction p t and primero q u rule: coincidir_explorar.induct)
  case 1
  then show ?case by simp
next
  case (2 x t)
  then show ?case by simp
next
  case (3 c p)
  then show ?case by simp
next
  case (4 c p x t)
  show ?case
  proof
    assume f: "c # p = [] \<or> last (c # p) = 37"
    then have fp: "p = [] \<or> last p = 37" by (auto split: if_splits)
    show "coincidir (c # p) (x # t) \<noteq> Escape_final"
    proof (cases "c = 92")
      case True
      with f obtain d q where p: "p = d # q" by (cases p) auto
      with fp have "q = [] \<or> last q = 37" by (auto split: if_splits)
      with 4(1) [OF True p] True p show ?thesis by auto
    next
      case n92: False
      show ?thesis
      proof (cases "c = 37")
        case True
        show ?thesis
        proof (cases "saltar p (x # t)")
          case Sin_texto
          with True show ?thesis by simp
        next
          case (Resto q u)
          from saltar_final [OF Resto fp] have fq: "q = [] \<or> last q = 37" .
          then have nq: "q \<noteq> [92]" by auto
          show ?thesis
          proof (cases "q = []")
            case True
            with \<open>c = 37\<close> Resto show ?thesis by simp
          next
            case False
            from 4(2) [OF n92 True Resto False nq] fq
            have "explorar (if hd q = 92 then q ! 1 else hd q) q u \<noteq> Escape_final" by simp
            with True Resto False nq show ?thesis by simp
          qed
        qed
      next
        case n37: False
        show ?thesis
        proof (cases "c = 95")
          case True
          with 4(3) [OF n92 n37 True] fp n92 n37 show ?thesis by simp
        next
          case False
          with 4(4) [OF n92 n37 False] fp n92 n37 show ?thesis by auto
        qed
      qed
    qed
  qed
next
  case (5 primero q)
  then show ?case by simp
next
  case (6 primero q x u)
  then show ?case by (auto split: coincidencia.splits)
qed

lemma like_falla_final:
  "p = [] \<or> last p = 37 \<Longrightarrow> \<not> like_falla x p"
  using sin_escape_final(1) by (cases x) (auto simp: like_falla_def)

lemma ilike_falla_final:
  "minuscula db 37 = 37 \<Longrightarrow> p = [] \<or> last p = 37 \<Longrightarrow> \<not> ilike_falla (minuscula db) x p"
  unfolding ilike_falla_def
  by (rule like_falla_final) (cases "p = []"; simp add: sql_lower_def last_map)


subsection \<open>The identifier term and the name term of the score\<close>

lemma normalizado_digitos: "\<forall>c\<in>set (normalizar_cuit_dni x). es_digito c"
  by (auto simp: normalizar_cuit_dni_def split: option.splits)

lemma digito_no_comodin: "es_digito c \<Longrightarrow> \<not> comodin c"
  by (auto simp: es_digito_def comodin_def)

lemma normalizado_sin_comodin: "\<forall>c\<in>set (normalizar_cuit_dni x). \<not> comodin c"
  using normalizado_digitos digito_no_comodin by blast

lemma bono_cuit_valor:
  assumes "n = normalizar_cuit_dni (Some texto)"
  shows "bono_cuit n ([37] @ n @ [37]) f =
     (if cuit_dni f = Some n then 300
      else if (case cuit_dni f of None \<Rightarrow> False | Some c \<Rightarrow> contiene n c) then 200
      else 0)"
proof -
  have "\<forall>c\<in>set n. \<not> comodin c" using assms normalizado_sin_comodin by simp
  then show ?thesis by (simp add: bono_cuit_def like_parcial)
qed

lemma buscar_filas:
  assumes "buscar_clientes_db db texto tipo co l = (rs, ef)" and "r \<in> set rs"
  shows "\<exists>f\<in>set (clientes db).
           r = relevante (minuscula db) co (normalizar_cuit_dni (Some texto))
                 ([37] @ normalizar_cuit_dni (Some texto) @ [37])
                 texto (texto @ [37]) ([37] @ texto @ [37]) f"
  using buscar_forma [OF assms(1)] assms(2) by blast

text \<open>
  C2. With \<open>n\<close> the normalised query, the identifier term of the score of a stored
  customer is 300 when the stored identifier equals \<open>n\<close>, 200 when it differs from \<open>n\<close>
  and contains it, and 0 when it is \<open>NULL\<close> or does not contain \<open>n\<close>. Every row the
  search returns comes from a stored customer, and its score is the sum of the agent
  term, the visibility term, the name term and that one identifier term: 300 or 200 or
  0, never both bonuses.
\<close>

theorem bono_cuit_excluyente:
  assumes b: "buscar_clientes_db db texto tipo co limite = (rs, ef)"
    and n: "n = normalizar_cuit_dni (Some texto)"
  shows "(\<forall>f :: fila. bono_cuit n ([37] @ n @ [37]) f =
            (if cuit_dni f = Some n then 300
             else if (case cuit_dni f of None \<Rightarrow> False | Some c \<Rightarrow> contiene n c) then 200
             else 0))
     \<and> (\<forall>r\<in>set rs. \<exists>f\<in>set (clientes db).
            id_cliente r = id_cliente f \<and> cuit_dni r = cuit_dni f
            \<and> relevancia_score r =
                bono_comercial co f + bono_visible f
                + (if cuit_dni r = Some n then 300
                   else if (case cuit_dni r of None \<Rightarrow> False | Some c \<Rightarrow> contiene n c)
                     then 200
                   else 0)
                + bono_nombre (minuscula db) texto (texto @ [37]) ([37] @ texto @ [37]) f)"
proof (intro conjI allI ballI)
  fix f :: fila
  show "bono_cuit n ([37] @ n @ [37]) f =
            (if cuit_dni f = Some n then 300
             else if (case cuit_dni f of None \<Rightarrow> False | Some c \<Rightarrow> contiene n c) then 200
             else 0)"
    by (rule bono_cuit_valor [OF n])
next
  fix r assume "r \<in> set rs"
  from buscar_filas [OF b this] obtain f where f: "f \<in> set (clientes db)"
    and r: "r = relevante (minuscula db) co n ([37] @ n @ [37])
                  texto (texto @ [37]) ([37] @ texto @ [37]) f"
    unfolding n by blast
  have "id_cliente r = id_cliente f \<and> cuit_dni r = cuit_dni f
        \<and> relevancia_score r =
                bono_comercial co f + bono_visible f
                + (if cuit_dni r = Some n then 300
                   else if (case cuit_dni r of None \<Rightarrow> False | Some c \<Rightarrow> contiene n c)
                     then 200
                   else 0)
                + bono_nombre (minuscula db) texto (texto @ [37]) ([37] @ texto @ [37]) f"
    unfolding r using bono_cuit_valor [OF n, of f]
    by (simp add: relevante_def puntaje_def del: append.simps)
  with f show "\<exists>f\<in>set (clientes db).
            id_cliente r = id_cliente f \<and> cuit_dni r = cuit_dni f
            \<and> relevancia_score r =
                bono_comercial co f + bono_visible f
                + (if cuit_dni r = Some n then 300
                   else if (case cuit_dni r of None \<Rightarrow> False | Some c \<Rightarrow> contiene n c)
                     then 200
                   else 0)
                + bono_nombre (minuscula db) texto (texto @ [37]) ([37] @ texto @ [37]) f"
    by blast
qed

theorem bono_cuit_excluyente_witness:
  "lit ''20304050607'' = normalizar_cuit_dni (Some (lit ''20304050607''))
   \<and> map cuit_dni (fst (buscar_clientes_db almacen_demo (lit ''20304050607'') None None 15))
       = [Some (lit ''20304050607'')]
   \<and> map relevancia_score
         (fst (buscar_clientes_db almacen_demo (lit ''20304050607'') None None 15)) = [900]
   \<and> bono_comercial None fila_demo + bono_visible fila_demo + 300
       + bono_nombre minuscula_demo (lit ''20304050607'') (lit ''20304050607'' @ [37])
           ([37] @ lit ''20304050607'' @ [37]) fila_demo = 900
   \<and> lit ''3040'' = normalizar_cuit_dni (Some (lit ''3040''))
   \<and> contiene (lit ''3040'') (lit ''20304050607'')
   \<and> map relevancia_score (fst (buscar_clientes_db almacen_demo (lit ''3040'') None None 15))
       = [800]
   \<and> bono_comercial None fila_demo + bono_visible fila_demo + 200
       + bono_nombre minuscula_demo (lit ''3040'') (lit ''3040'' @ [37])
           ([37] @ lit ''3040'' @ [37]) fila_demo = 800
   \<and> map cuit_dni (fst (buscar_clientes_db almacen_mixto (lit ''eva paz'') None None 15))
       = [None]
   \<and> map relevancia_score (fst (buscar_clientes_db almacen_mixto (lit ''eva paz'') None None 15))
       = [150]
   \<and> bono_comercial None fila_mixta + bono_visible fila_mixta + 0
       + bono_nombre minuscula_demo (lit ''eva paz'') (lit ''eva paz'' @ [37])
           ([37] @ lit ''eva paz'' @ [37]) fila_mixta = 150"
proof -
  define r1 where "r1 = fst (buscar_clientes_db almacen_demo (lit ''20304050607'') None None 15)"
  define r2 where "r2 = fst (buscar_clientes_db almacen_demo (lit ''3040'') None None 15)"
  define r3 where "r3 = fst (buscar_clientes_db almacen_mixto (lit ''eva paz'') None None 15)"
  have b: "buscar_clientes_db almacen_demo (lit ''20304050607'') None None 15
             = (r1, snd (buscar_clientes_db almacen_demo (lit ''20304050607'') None None 15))"
    "buscar_clientes_db almacen_demo (lit ''3040'') None None 15
             = (r2, snd (buscar_clientes_db almacen_demo (lit ''3040'') None None 15))"
    "buscar_clientes_db almacen_mixto (lit ''eva paz'') None None 15
             = (r3, snd (buscar_clientes_db almacen_mixto (lit ''eva paz'') None None 15))"
    by (simp_all add: r1_def r2_def r3_def)
  have n: "lit ''20304050607'' = normalizar_cuit_dni (Some (lit ''20304050607''))"
    "lit ''3040'' = normalizar_cuit_dni (Some (lit ''3040''))"
    "[] = normalizar_cuit_dni (Some (lit ''eva paz''))"
    by code_simp+
  have v: "map cuit_dni r1 = [Some (lit ''20304050607'')]" "map relevancia_score r1 = [900]"
    "map cuit_dni r2 = [Some (lit ''20304050607'')]" "map relevancia_score r2 = [800]"
    "map cuit_dni r3 = [None]" "map relevancia_score r3 = [150]"
    unfolding r1_def r2_def r3_def by code_simp+
  have c: "contiene (lit ''3040'') (lit ''20304050607'')"
    "lit ''20304050607'' \<noteq> lit ''3040''"
    "clientes almacen_demo = [fila_demo]" "clientes almacen_mixto = [fila_mixta]"
    "minuscula almacen_demo = minuscula_demo" "minuscula almacen_mixto = minuscula_demo"
    by (code_simp, code_simp, simp_all add: almacen_demo_def almacen_mixto_def)
  from v(1) obtain x1 where x1: "r1 = [x1]" by auto
  from v(3) obtain x2 where x2: "r2 = [x2]" by auto
  from v(5) obtain x3 where x3: "r3 = [x3]" by auto
  have s1: "relevancia_score x1 = bono_comercial None fila_demo + bono_visible fila_demo + 300
       + bono_nombre minuscula_demo (lit ''20304050607'') (lit ''20304050607'' @ [37])
           ([37] @ lit ''20304050607'' @ [37]) fila_demo"
    using bono_cuit_excluyente [OF b(1) n(1)] v(1) x1 c(3,5) by (simp del: append.simps)
  have s2: "relevancia_score x2 = bono_comercial None fila_demo + bono_visible fila_demo + 200
       + bono_nombre minuscula_demo (lit ''3040'') (lit ''3040'' @ [37])
           ([37] @ lit ''3040'' @ [37]) fila_demo"
    using bono_cuit_excluyente [OF b(2) n(2)] v(3) x2 c(1,2,3,5) by (simp del: append.simps)
  have s3: "relevancia_score x3 = bono_comercial None fila_mixta + bono_visible fila_mixta + 0
       + bono_nombre minuscula_demo (lit ''eva paz'') (lit ''eva paz'' @ [37])
           ([37] @ lit ''eva paz'' @ [37]) fila_mixta"
    using bono_cuit_excluyente [OF b(3) n(3)] v(5) x3 c(4,6) by (simp del: append.simps)
  from s1 s2 s3 v x1 x2 x3 n c show ?thesis
    unfolding r1_def [symmetric] r2_def [symmetric] r3_def [symmetric] by simp
qed

lemma lower_sin_comodin:
  "\<forall>c\<in>set t. \<not> comodin (lc c) \<Longrightarrow> \<forall>c\<in>set (sql_lower lc t). \<not> comodin c"
  by (auto simp: sql_lower_def)

lemma lower_patrones:
  "lc 37 = 37 \<Longrightarrow> sql_lower lc (t @ [37]) = sql_lower lc t @ [37]"
  "lc 37 = 37 \<Longrightarrow> sql_lower lc ([37] @ t @ [37]) = 37 # sql_lower lc t @ [37]"
  by (simp_all add: sql_lower_def)

lemma bono_nombre_valor:
  assumes w: "\<forall>c\<in>set texto. \<not> comodin (lc c)" and p: "lc 37 = 37"
  shows "bono_nombre lc texto (texto @ [37]) ([37] @ texto @ [37]) f =
     (if map_option (sql_lower lc) (nombre_comparado f) = Some (sql_lower lc texto) then 250
      else if (case busqueda_texto f of None \<Rightarrow> False
               | Some b \<Rightarrow> empieza_con (sql_lower lc texto) (sql_lower lc b)) then 150
      else if (case busqueda_texto f of None \<Rightarrow> False
               | Some b \<Rightarrow> contiene (sql_lower lc texto) (sql_lower lc b)) then 100
      else 0)"
proof -
  note n = lower_sin_comodin [OF w]
  have i: "like (map_option (sql_lower lc) x) (sql_lower lc texto @ [37])
              \<longleftrightarrow> (case x of None \<Rightarrow> False
                   | Some b \<Rightarrow> empieza_con (sql_lower lc texto) (sql_lower lc b))" for x
    by (cases x) (simp_all add: like_inicio [OF n])
  have c: "like (map_option (sql_lower lc) x) (37 # sql_lower lc texto @ [37])
              \<longleftrightarrow> (case x of None \<Rightarrow> False
                   | Some b \<Rightarrow> contiene (sql_lower lc texto) (sql_lower lc b))" for x
    by (cases x) (simp_all add: like_parcial [OF n])
  show ?thesis
    unfolding bono_nombre_def ilike_def lower_patrones [of lc, OF p] like_exacto [OF n] i c by simp
qed

lemma nombre_comparado_relevante:
  "nombre_comparado (relevante lc co ce cp pe pi pp f) = nombre_comparado f"
  by (simp add: nombre_comparado_def relevante_def)

text \<open>
  The 250 points are not given for a displayed name that starts with the query: the
  first non-null of trade name, full name and legal name is compared with the raw query
  as a whole pattern. For the stored customer \<open>Acme\<close> and the query \<open>ac\<close> the displayed
  name starts with the query, and the name term is 150, which the searchable text earns;
  the search returns the row with 500 + 200 + 150 points. For the patient \<open>Eva Paz\<close>
  with the trade name \<open>Acme\<close> the displayed name equals the query \<open>eva paz\<close> up to case,
  and the name term is again 150, because the name compared is \<open>Acme\<close>. For the query
  \<open>a_\<close> the searchable text of \<open>Acme\<close> neither starts with these two characters nor
  contains them, and the name term is 150, because the query is read as a pattern.
\<close>

theorem bono_nombre_prefijo_contraejemplo:
  "mostrar_nombre fila_demo = Some (lit ''Acme'')
   \<and> empieza_con (sql_lower minuscula_demo (lit ''ac'')) (sql_lower minuscula_demo (lit ''Acme''))
   \<and> bono_nombre minuscula_demo (lit ''ac'') (lit ''ac'' @ [37]) ([37] @ lit ''ac'' @ [37])
        fila_demo = 150
   \<and> map relevancia_score (fst (buscar_clientes_db almacen_demo (lit ''ac'') None None 15))
       = [850]
   \<and> mostrar_nombre fila_mixta = Some (lit ''Eva Paz'')
   \<and> sql_lower minuscula_demo (lit ''Eva Paz'') = sql_lower minuscula_demo (lit ''eva paz'')
   \<and> bono_nombre minuscula_demo (lit ''eva paz'') (lit ''eva paz'' @ [37])
        ([37] @ lit ''eva paz'' @ [37]) fila_mixta = 150
   \<and> map relevancia_score (fst (buscar_clientes_db almacen_mixto (lit ''eva paz'') None None 15))
       = [150]
   \<and> busqueda_texto fila_demo = Some (lit ''acme 20304050607'')
   \<and> \<not> empieza_con (sql_lower minuscula_demo (lit ''a_''))
         (sql_lower minuscula_demo (lit ''acme 20304050607''))
   \<and> \<not> contiene (sql_lower minuscula_demo (lit ''a_''))
         (sql_lower minuscula_demo (lit ''acme 20304050607''))
   \<and> bono_nombre minuscula_demo (lit ''a_'') (lit ''a_'' @ [37]) ([37] @ lit ''a_'' @ [37])
        fila_demo = 150
   \<and> map relevancia_score (fst (buscar_clientes_db almacen_demo (lit ''a_'') None None 15))
       = [850]"
  by code_simp

text \<open>
  C3, amended. For a query without the characters \<open>%\<close>, \<open>_\<close> and backslash, the name
  term of the score of a stored customer is 250 when the first non-null of trade name,
  full name and legal name equals the query up to case; otherwise 150 when the
  searchable text starts with the query up to case; otherwise 100 when the searchable
  text contains the query up to case; otherwise 0. Every row the search returns comes
  from a stored customer, and its score is the sum of the agent term, the visibility
  term, the identifier term and that name term. Case is folded by the mapping of the
  database, which keeps \<open>%\<close> and maps no character of the query to a wildcard.
\<close>

theorem bono_nombre_escalonado:
  assumes b: "buscar_clientes_db db texto tipo co limite = (rs, ef)"
    and w: "\<forall>c\<in>set texto. \<not> comodin c \<and> \<not> comodin (minuscula db c)"
    and p: "minuscula db 37 = 37"
  shows "(\<forall>f :: fila.
            bono_nombre (minuscula db) texto (texto @ [37]) ([37] @ texto @ [37]) f =
              (if map_option (sql_lower (minuscula db)) (nombre_comparado f)
                    = Some (sql_lower (minuscula db) texto) then 250
               else if (case busqueda_texto f of None \<Rightarrow> False
                        | Some t \<Rightarrow> empieza_con (sql_lower (minuscula db) texto)
                                     (sql_lower (minuscula db) t)) then 150
               else if (case busqueda_texto f of None \<Rightarrow> False
                        | Some t \<Rightarrow> contiene (sql_lower (minuscula db) texto)
                                     (sql_lower (minuscula db) t)) then 100
               else 0))
     \<and> (\<forall>r\<in>set rs. \<exists>f\<in>set (clientes db).
            id_cliente r = id_cliente f \<and> nombre_comparado r = nombre_comparado f
            \<and> relevancia_score r =
                bono_comercial co f + bono_visible f
                + bono_cuit (normalizar_cuit_dni (Some texto))
                    ([37] @ normalizar_cuit_dni (Some texto) @ [37]) f
                + (if map_option (sql_lower (minuscula db)) (nombre_comparado r)
                        = Some (sql_lower (minuscula db) texto) then 250
                   else if (case busqueda_texto f of None \<Rightarrow> False
                            | Some t \<Rightarrow> empieza_con (sql_lower (minuscula db) texto)
                                         (sql_lower (minuscula db) t)) then 150
                   else if (case busqueda_texto f of None \<Rightarrow> False
                            | Some t \<Rightarrow> contiene (sql_lower (minuscula db) texto)
                                         (sql_lower (minuscula db) t)) then 100
                   else 0))"
proof -
  from w have w': "\<forall>c\<in>set texto. \<not> comodin (minuscula db c)" by blast
  note v = bono_nombre_valor [OF w' p]
  have "\<exists>f\<in>set (clientes db).
            id_cliente r = id_cliente f \<and> nombre_comparado r = nombre_comparado f
            \<and> relevancia_score r =
                bono_comercial co f + bono_visible f
                + bono_cuit (normalizar_cuit_dni (Some texto))
                    ([37] @ normalizar_cuit_dni (Some texto) @ [37]) f
                + (if map_option (sql_lower (minuscula db)) (nombre_comparado r)
                        = Some (sql_lower (minuscula db) texto) then 250
                   else if (case busqueda_texto f of None \<Rightarrow> False
                            | Some t \<Rightarrow> empieza_con (sql_lower (minuscula db) texto)
                                         (sql_lower (minuscula db) t)) then 150
                   else if (case busqueda_texto f of None \<Rightarrow> False
                            | Some t \<Rightarrow> contiene (sql_lower (minuscula db) texto)
                                         (sql_lower (minuscula db) t)) then 100
                   else 0)" if "r \<in> set rs" for r
  proof -
    from buscar_filas [OF b that] obtain f where f: "f \<in> set (clientes db)"
      and r: "r = relevante (minuscula db) co (normalizar_cuit_dni (Some texto))
                  ([37] @ normalizar_cuit_dni (Some texto) @ [37])
                  texto (texto @ [37]) ([37] @ texto @ [37]) f"
      by blast
    have "relevancia_score r = bono_comercial co f + bono_visible f
                + bono_cuit (normalizar_cuit_dni (Some texto))
                    ([37] @ normalizar_cuit_dni (Some texto) @ [37]) f
                + bono_nombre (minuscula db) texto (texto @ [37]) ([37] @ texto @ [37]) f"
      unfolding r by (simp add: relevante_def puntaje_def del: append.simps)
    moreover have "id_cliente r = id_cliente f" unfolding r by (simp add: relevante_def)
    moreover have "nombre_comparado r = nombre_comparado f"
      unfolding r by (rule nombre_comparado_relevante)
    ultimately show ?thesis using f unfolding v [of f] by auto
  qed
  with v show ?thesis by blast
qed

theorem bono_nombre_escalonado_witness:
  "list_all (\<lambda>c. \<not> comodin c \<and> \<not> comodin (minuscula_demo c)) (lit ''acme'')
   \<and> list_all (\<lambda>c. \<not> comodin c \<and> \<not> comodin (minuscula_demo c)) (lit ''ac'')
   \<and> list_all (\<lambda>c. \<not> comodin c \<and> \<not> comodin (minuscula_demo c)) (lit ''304'')
   \<and> minuscula_demo 37 = 37
   \<and> map relevancia_score (fst (buscar_clientes_db almacen_demo (lit ''acme'') None None 15))
       = [950]
   \<and> bono_comercial None fila_demo + bono_visible fila_demo
       + bono_cuit (normalizar_cuit_dni (Some (lit ''acme'')))
           ([37] @ normalizar_cuit_dni (Some (lit ''acme'')) @ [37]) fila_demo + 250 = 950
   \<and> map relevancia_score (fst (buscar_clientes_db almacen_demo (lit ''ac'') None None 15))
       = [850]
   \<and> bono_comercial None fila_demo + bono_visible fila_demo
       + bono_cuit (normalizar_cuit_dni (Some (lit ''ac'')))
           ([37] @ normalizar_cuit_dni (Some (lit ''ac'')) @ [37]) fila_demo + 150 = 850
   \<and> map relevancia_score (fst (buscar_clientes_db almacen_demo (lit ''304'') None None 15))
       = [800]
   \<and> bono_comercial None fila_demo + bono_visible fila_demo
       + bono_cuit (normalizar_cuit_dni (Some (lit ''304'')))
           ([37] @ normalizar_cuit_dni (Some (lit ''304'')) @ [37]) fila_demo + 100 = 800"
proof -
  define r1 where "r1 = fst (buscar_clientes_db almacen_demo (lit ''acme'') None None 15)"
  define r2 where "r2 = fst (buscar_clientes_db almacen_demo (lit ''ac'') None None 15)"
  define r3 where "r3 = fst (buscar_clientes_db almacen_demo (lit ''304'') None None 15)"
  have b: "buscar_clientes_db almacen_demo (lit ''acme'') None None 15
             = (r1, snd (buscar_clientes_db almacen_demo (lit ''acme'') None None 15))"
    "buscar_clientes_db almacen_demo (lit ''ac'') None None 15
             = (r2, snd (buscar_clientes_db almacen_demo (lit ''ac'') None None 15))"
    "buscar_clientes_db almacen_demo (lit ''304'') None None 15
             = (r3, snd (buscar_clientes_db almacen_demo (lit ''304'') None None 15))"
    by (simp_all add: r1_def r2_def r3_def)
  have m: "minuscula almacen_demo = minuscula_demo" "clientes almacen_demo = [fila_demo]"
    by (simp_all add: almacen_demo_def)
  have h: "list_all (\<lambda>c. \<not> comodin c \<and> \<not> comodin (minuscula_demo c)) (lit ''acme'')"
    "list_all (\<lambda>c. \<not> comodin c \<and> \<not> comodin (minuscula_demo c)) (lit ''ac'')"
    "list_all (\<lambda>c. \<not> comodin c \<and> \<not> comodin (minuscula_demo c)) (lit ''304'')"
    "minuscula_demo 37 = 37"
    by code_simp+
  have w: "\<forall>c\<in>set (lit ''acme''). \<not> comodin c \<and> \<not> comodin (minuscula almacen_demo c)"
    "\<forall>c\<in>set (lit ''ac''). \<not> comodin c \<and> \<not> comodin (minuscula almacen_demo c)"
    "\<forall>c\<in>set (lit ''304''). \<not> comodin c \<and> \<not> comodin (minuscula almacen_demo c)"
    "minuscula almacen_demo 37 = 37"
    using h unfolding m list_all_iff by blast+
  have v: "map relevancia_score r1 = [950]" "map relevancia_score r2 = [850]"
    "map relevancia_score r3 = [800]"
    unfolding r1_def r2_def r3_def by code_simp+
  have e: "map_option (sql_lower minuscula_demo) (nombre_comparado fila_demo)
             = Some (sql_lower minuscula_demo (lit ''acme''))"
    "map_option (sql_lower minuscula_demo) (nombre_comparado fila_demo)
             \<noteq> Some (sql_lower minuscula_demo (lit ''ac''))"
    "map_option (sql_lower minuscula_demo) (nombre_comparado fila_demo)
             \<noteq> Some (sql_lower minuscula_demo (lit ''304''))"
    "(case busqueda_texto fila_demo of None \<Rightarrow> False
      | Some t \<Rightarrow> empieza_con (sql_lower minuscula_demo (lit ''ac''))
                   (sql_lower minuscula_demo t))"
    "\<not> (case busqueda_texto fila_demo of None \<Rightarrow> False
      | Some t \<Rightarrow> empieza_con (sql_lower minuscula_demo (lit ''304''))
                   (sql_lower minuscula_demo t))"
    "(case busqueda_texto fila_demo of None \<Rightarrow> False
      | Some t \<Rightarrow> contiene (sql_lower minuscula_demo (lit ''304''))
                   (sql_lower minuscula_demo t))"
    by code_simp+
  from v(1) obtain x1 where x1: "r1 = [x1]" by auto
  from v(2) obtain x2 where x2: "r2 = [x2]" by auto
  from v(3) obtain x3 where x3: "r3 = [x3]" by auto
  have i: "x1 \<in> set r1" "x2 \<in> set r2" "x3 \<in> set r3" by (simp_all add: x1 x2 x3)
  from bono_nombre_escalonado [OF b(1) w(1) w(4), THEN conjunct2, THEN bspec, OF i(1)]
  have s1: "relevancia_score x1 = bono_comercial None fila_demo + bono_visible fila_demo
       + bono_cuit (normalizar_cuit_dni (Some (lit ''acme'')))
           ([37] @ normalizar_cuit_dni (Some (lit ''acme'')) @ [37]) fila_demo + 250"
    unfolding m using e(1) by (auto simp del: append.simps)
  from bono_nombre_escalonado [OF b(2) w(2) w(4), THEN conjunct2, THEN bspec, OF i(2)]
  have s2: "relevancia_score x2 = bono_comercial None fila_demo + bono_visible fila_demo
       + bono_cuit (normalizar_cuit_dni (Some (lit ''ac'')))
           ([37] @ normalizar_cuit_dni (Some (lit ''ac'')) @ [37]) fila_demo + 150"
    unfolding m using e(2,4) by (auto simp del: append.simps)
  from bono_nombre_escalonado [OF b(3) w(3) w(4), THEN conjunct2, THEN bspec, OF i(3)]
  have s3: "relevancia_score x3 = bono_comercial None fila_demo + bono_visible fila_demo
       + bono_cuit (normalizar_cuit_dni (Some (lit ''304'')))
           ([37] @ normalizar_cuit_dni (Some (lit ''304'')) @ [37]) fila_demo + 100"
    unfolding m using e(3,5,6) by (auto simp del: append.simps)
  from s1 s2 s3 v x1 x2 x3 h show ?thesis
    unfolding r1_def [symmetric] r2_def [symmetric] r3_def [symmetric] by simp
qed

text \<open>
  The patterns of the search that end in \<open>%\<close> never raise the error of \<open>LIKE\<close>, so that
  a search fails on a pattern only when the comparison of a name with the raw query
  reaches a backslash that ends the query. The examples after the lemma run a search
  for a name in capitals, a search with a query that ends in a backslash and finds a
  customer, and the same search when a name starts like the query.
\<close>

lemma fila_falla_busqueda:
  assumes p: "minuscula db 37 = 37"
  shows "fila_falla (minuscula db) (normalizar_cuit_dni (Some texto))
           ([37] @ normalizar_cuit_dni (Some texto) @ [37])
           texto (texto @ [37]) ([37] @ texto @ [37]) ([37] @ texto @ [37])
           ([37] @ texto @ [37]) tipo tipo f
         \<longleftrightarrow> filtro (minuscula db) ([37] @ texto @ [37]) ([37] @ texto @ [37]) tipo tipo f
             \<and> like_falla (map_option (sql_lower (minuscula db)) (nombre_comparado f))
                  (sql_lower (minuscula db) texto)"
proof -
  have a: "\<not> ilike_falla (minuscula db) x ([37] @ texto @ [37])" for x
    by (rule ilike_falla_final [OF p]) simp
  have i: "\<not> like_falla x (sql_lower (minuscula db) (texto @ [37]))" for x
    by (rule like_falla_final) (simp add: sql_lower_def p)
  have c: "\<not> like_falla x ([37] @ normalizar_cuit_dni (Some texto) @ [37])" for x
    by (rule like_falla_final) simp
  show ?thesis
    unfolding fila_falla_def filtro_falla_def puntaje_falla_def using a i c by blast
qed

lemma busqueda_sin_distinguir_mayusculas:
  "map relevancia_score
     (fst (buscar_clientes_db almacen_lodz [322, 243, 100, 378] None None 15)) = [250]
   \<and> bono_nombre minuscula_demo [322, 243, 100, 378] ([322, 243, 100, 378] @ [37])
       ([37] @ [322, 243, 100, 378] @ [37]) fila_lodz = 250"
  by code_simp

lemma busqueda_con_escape:
  "map id_cliente
     (fst (buscar_clientes_db almacen_escape (lit ''ac'' @ [92]) None None 15)) = [4]
   \<and> map relevancia_score
        (fst (buscar_clientes_db almacen_escape (lit ''ac'' @ [92]) None None 15)) = [100]
   \<and> snd (buscar_clientes_db almacen_escape (lit ''ac'' @ [92]) None None 15)
       = [Conectar, Ejecutar, Cerrar]
   \<and> buscar_clientes_db almacen_escape_falla (lit ''ac'' @ [92]) None None 15
     = ([], [Conectar, Ejecutar, StError (error_busqueda
               (lit ''LIKE pattern must not end with escape character''))])"
  by code_simp


section \<open>Properties of the search under failure\<close>






section \<open>Properties of the validator\<close>

subsection \<open>Auxiliary facts on strings and on the parts of the error list\<close>

lemma contiene_medio_nil:
  "m \<noteq> [] \<Longrightarrow> set m \<inter> set n = {} \<Longrightarrow> contiene n (m @ b) \<Longrightarrow> contiene n b"
proof (induction m)
  case Nil
  then show ?case by simp
next
  case (Cons y m')
  show ?case
  proof (cases n)
    case Nil
    then show ?thesis by (simp add: contiene_nil)
  next
    case (Cons n0 ns)
    with Cons.prems have ny: "n0 \<noteq> y" by auto
    with Cons.prems(3) Cons have c: "contiene n (m' @ b)" by auto
    show ?thesis
    proof (cases "m' = []")
      case True
      with c show ?thesis by simp
    next
      case False
      with Cons.IH Cons.prems(2) c show ?thesis by auto
    qed
  qed
qed

lemma contiene_medio:
  "m \<noteq> [] \<Longrightarrow> set m \<inter> set n = {} \<Longrightarrow> contiene n (a @ m @ b)
     \<Longrightarrow> contiene n a \<or> contiene n b"
proof (induction a)
  case Nil
  then show ?case using contiene_medio_nil by auto
next
  case (Cons x a')
  from Cons.prems(3) consider (here) "take (length n) (x # a' @ m @ b) = n"
    | (later) "contiene n (a' @ m @ b)" by auto
  then show ?case
  proof cases
    case later
    with Cons show ?thesis by auto
  next
    case here
    show ?thesis
    proof (cases "length n \<le> length (x # a')")
      case True
      with here have "take (length n) (x # a') = n"
        by (metis append_Cons take_append diff_is_0_eq take_0 append_Nil2)
      then show ?thesis by (metis contiene.simps(2))
    next
      case False
      obtain y m' where m: "m = y # m'" using Cons.prems(1) by (cases m) auto
      from False have l: "length (x # a') < length n" by simp
      from here have "n ! length (x # a') = (x # a' @ m @ b) ! length (x # a')"
        using l by (metis nth_take)
      also have "\<dots> = y" using m by (metis append_Cons nth_append_length)
      finally have "y \<in> set n" using l by (metis nth_mem)
      with Cons.prems(2) m show ?thesis by auto
    qed
  qed
qed

lemma decimal_no_vacio: "decimal i \<noteq> []"
  by (subst decimal.simps) simp

lemma decimal_digitos: "c \<in> set (decimal i) \<Longrightarrow> es_digito c"
proof (induction i rule: decimal.induct)
  case (1 n)
  show ?case
  proof (cases "n < 10")
    case True
    with "1.prems" show ?thesis by (subst (asm) decimal.simps) (auto simp: es_digito_def)
  next
    case False
    with "1.prems" have "c \<in> set (decimal (n div 10)) \<or> c = 48 + n mod 10"
      by (subst (asm) decimal.simps) auto
    with False "1.IH" show ?thesis by (auto simp: es_digito_def)
  qed
qed

lemma no_contiene_numerado:
  assumes "\<forall>c\<in>set n. \<not> es_digito c" and "\<not> contiene n a" and "\<not> contiene n b"
  shows "\<not> contiene n (a @ decimal i @ b)"
proof -
  have "set (decimal i) \<inter> set n = {}" using assms(1) decimal_digitos by auto
  with decimal_no_vacio assms(2,3) show ?thesis using contiene_medio by blast
qed

lemma en_si: "e \<in> set (si c m) \<longleftrightarrow> c \<and> e = m"
  by (auto simp: si_def)

lemma si_falso: "\<not> c \<Longrightarrow> si c m = []"
  by (simp add: si_def)

lemma inicio_errores_equipo:
  "e \<in> set (errores_equipo i eq) \<Longrightarrow> hd e = 76 \<or> hd e = 69"
  by (auto simp: errores_equipo_def en_si lit_def)

lemma inicio_errores_enumerados:
  "e \<in> set (errores_enumerados i l) \<Longrightarrow> hd e = 76 \<or> hd e = 69"
  by (induction l arbitrary: i) (auto dest: inicio_errores_equipo)

lemma opcion_no_equipos: "error_opcion \<notin> set (errores_equipos d)"
proof
  assume a: "error_opcion \<in> set (errores_equipos d)"
  have h: "hd error_opcion = 68" by (simp add: error_opcion_def lit_def)
  have n: "error_opcion \<noteq> error_equipos" by (simp add: error_opcion_def error_equipos_def lit_def)
  from a n have "\<exists>i l. error_opcion \<in> set (errores_enumerados i l)"
    by (auto simp: errores_equipos_def Let_def split: if_splits)
  then show False using h by (auto dest: inicio_errores_enumerados)
qed

lemma opcion_no_colaborador: "error_opcion \<notin> set (errores_colaborador d)"
  by (simp add: errores_colaborador_def Let_def en_si error_opcion_def lit_def Institucion_def)

lemma opcion_no_distribuidor: "error_opcion \<notin> set (errores_distribuidor d)"
  by (simp add: errores_distribuidor_def en_si error_opcion_def lit_def)

lemma opcion_no_institucion: "error_opcion \<notin> set (errores_institucion d)"
  by (simp add: errores_institucion_def en_si error_opcion_def lit_def)

lemma opcion_no_paciente: "error_opcion \<notin> set (errores_paciente d)"
  by (simp add: errores_paciente_def en_si error_opcion_def lit_def)

lemma motivos_distintos:
  "Servicio_Tecnico \<noteq> lit ''Cambio de Alquiler''"
  "Servicio_Post_Venta \<noteq> lit ''Cambio de Alquiler''"
  "Servicio_Tecnico \<noteq> lit ''Cambio por falla de funcionamiento cr'' @ [237] @ lit ''tica''"
  "Servicio_Post_Venta \<noteq> lit ''Cambio por falla de funcionamiento cr'' @ [237] @ lit ''tica''"
  by (simp_all add: Servicio_Tecnico_def Servicio_Post_Venta_def lit_def)

lemma errores_motivo_servicio:
  assumes "get d ''motivo_solicitud'' = Some m"
    and "m = Servicio_Tecnico \<or> m = Servicio_Post_Venta"
  shows "errores_motivo d =
     si ((case fallas_problemas d of None \<Rightarrow> [] | Some l \<Rightarrow> l) = []
         \<and> strip (get_o d ''detalle_fallo'') = []) error_opcion"
proof -
  from assms(1) have g: "get_o d ''motivo_solicitud'' = m"
    by (simp add: get_def get_o_def)
  from assms(2) show ?thesis
    unfolding errores_motivo_def g Let_def using motivos_distintos by auto
qed

lemma opcion_comunes:
  "error_opcion \<noteq> lit ''El correo electr'' @ [243] @ lit ''nico es obligatorio''"
  "error_opcion \<noteq> lit ''Debe indicar qui'' @ [233] @ lit ''n completa la solicitud''"
  by (simp_all add: error_opcion_def lit_def)

lemma opcion_en_errores:
  "error_opcion \<in> set (errores_de d) \<longleftrightarrow> error_opcion \<in> set (errores_motivo d)"
  using opcion_comunes
  by (simp add: errores_de_def Let_def en_si opcion_no_equipos opcion_no_colaborador
        opcion_no_distribuidor opcion_no_institucion opcion_no_paciente)



lemma forma_errores_motivo:
  "e \<in> set (errores_motivo d) \<Longrightarrow>
     e \<in> set [lit ''Debe especificar el motivo del cambio de alquiler'',
               lit ''Debe describir la falla cr'' @ [237] @ lit ''tica que justifica el cambio'',
               error_opcion]"
  by (auto simp: errores_motivo_def Let_def en_si split: if_splits)

lemma forma_errores_enumerados:
  "e \<in> set (errores_enumerados i l) \<Longrightarrow>
     \<exists>j. e = lit ''La marca del equipo '' @ decimal j @ lit '' es obligatoria''
        \<or> e = lit ''El modelo del equipo '' @ decimal j @ lit '' es obligatorio''
        \<or> e = lit ''El n'' @ [250] @ lit ''mero de serie del equipo '' @ decimal j
                @ lit '' es obligatorio''"
proof (induction l arbitrary: i)
  case Nil
  then show ?case by simp
next
  case (Cons eq l)
  from Cons.prems have "e \<in> set (errores_equipo i eq) \<or> e \<in> set (errores_enumerados (Suc i) l)"
    by simp
  then show ?case
  proof
    assume "e \<in> set (errores_equipo i eq)"
    then show ?thesis unfolding errores_equipo_def by (auto simp: en_si)
  next
    assume "e \<in> set (errores_enumerados (Suc i) l)"
    then show ?thesis by (rule Cons.IH)
  qed
qed

lemma sin_mencion_resto:
  assumes dig: "\<forall>c\<in>set n. \<not> es_digito c"
    and fijos: "\<forall>e\<in>set
       [lit ''El correo electr'' @ [243] @ lit ''nico es obligatorio'',
        lit ''Debe especificar el motivo del cambio de alquiler'',
        lit ''Debe describir la falla cr'' @ [237] @ lit ''tica que justifica el cambio'',
        error_opcion, error_equipos,
        lit ''La marca del equipo '', lit '' es obligatoria'',
        lit ''El modelo del equipo '', lit '' es obligatorio'',
        lit ''El n'' @ [250] @ lit ''mero de serie del equipo ''].
         \<not> contiene n e"
    and e: "e \<in> set (si c (lit ''El correo electr'' @ [243] @ lit ''nico es obligatorio'')
                      @ errores_motivo d @ errores_equipos d)"
  shows "\<not> contiene n e"
proof -
  from e consider
      (correo) "e = lit ''El correo electr'' @ [243] @ lit ''nico es obligatorio''"
    | (motivo) "e \<in> set (errores_motivo d)"
    | (ninguno) "e = error_equipos"
    | (equipo) i l where "e \<in> set (errores_enumerados i l)"
    by (auto simp: en_si errores_equipos_def Let_def split: if_splits)
  then show ?thesis
  proof cases
    case correo
    with fijos show ?thesis by simp
  next
    case motivo
    from forma_errores_motivo [OF motivo] fijos show ?thesis by auto
  next
    case ninguno
    with fijos show ?thesis by simp
  next
    case equipo
    from forma_errores_enumerados [OF equipo] obtain j where
      "e = lit ''La marca del equipo '' @ decimal j @ lit '' es obligatoria''
        \<or> e = lit ''El modelo del equipo '' @ decimal j @ lit '' es obligatorio''
        \<or> e = (lit ''El n'' @ [250] @ lit ''mero de serie del equipo '') @ decimal j
                @ lit '' es obligatorio''" by auto
    moreover have "\<not> contiene n (lit ''La marca del equipo '' @ decimal j @ lit '' es obligatoria'')"
      using fijos by (intro no_contiene_numerado [OF dig]) simp_all
    moreover have "\<not> contiene n (lit ''El modelo del equipo '' @ decimal j @ lit '' es obligatorio'')"
      using fijos by (intro no_contiene_numerado [OF dig]) simp_all
    moreover have "\<not> contiene n ((lit ''El n'' @ [250] @ lit ''mero de serie del equipo '')
                      @ decimal j @ lit '' es obligatorio'')"
      using fijos by (intro no_contiene_numerado [OF dig]) simp_all
    ultimately show ?thesis by auto
  qed
qed

lemma filter_si: "filter P (si c m) = (if c \<and> P m then [m] else [])"
  by (simp add: si_def)

lemma errores_de_paciente:
  assumes "get d ''quien_completa'' = Some (lit ''Paciente/Particular'')"
  shows "errores_de d =
     si (vacio (get d ''email'')) (lit ''El correo electr'' @ [243] @ lit ''nico es obligatorio'')
     @ errores_paciente d @ errores_motivo d @ errores_equipos d"
proof -
  have g: "get_o d ''quien_completa'' = lit ''Paciente/Particular''"
    using assms by (simp add: get_def get_o_def)
  have "lit ''Paciente/Particular'' \<noteq> []" by (simp add: lit_def)
  then have v: "\<not> vacio (get d ''quien_completa'')"
    using assms by (simp add: vacio_def)
  have n: "lit ''Paciente/Particular'' \<noteq> lit ''Colaborador de Syemed''"
    "lit ''Paciente/Particular'' \<noteq> lit ''Distribuidor''"
    "lit ''Paciente/Particular'' \<noteq> Institucion"
    by (simp_all add: lit_def Institucion_def)
  show ?thesis
    unfolding errores_de_def g Let_def using n v by (simp add: si_falso)
qed

lemma menciones_paciente:
  assumes q: "get d ''quien_completa'' = Some (lit ''Paciente/Particular'')"
    and dig: "\<forall>c\<in>set n. \<not> es_digito c"
    and fijos: "\<forall>e\<in>set
       [lit ''El correo electr'' @ [243] @ lit ''nico es obligatorio'',
        lit ''Debe especificar el motivo del cambio de alquiler'',
        lit ''Debe describir la falla cr'' @ [237] @ lit ''tica que justifica el cambio'',
        error_opcion, error_equipos,
        lit ''La marca del equipo '', lit '' es obligatoria'',
        lit ''El modelo del equipo '', lit '' es obligatorio'',
        lit ''El n'' @ [250] @ lit ''mero de serie del equipo ''].
         \<not> contiene n e"
    and pac: "\<forall>e\<in>set
       [lit ''Nombre y Apellido es obligatorio'', lit ''Origen del equipo es obligatorio'',
        lit ''Motivo de la solicitud es obligatorio'']. \<not> contiene n e"
  shows "filter (contiene n) (errores_de d) =
     filter (contiene n) (si (vacio (get d ''telefono_paciente''))
        (lit ''Tel'' @ [233] @ lit ''fono de contacto es obligatorio''))"
proof -
  have r: "filter (contiene n)
           (si (vacio (get d ''email'')) (lit ''El correo electr'' @ [243] @ lit ''nico es obligatorio'')
             @ errores_motivo d @ errores_equipos d) = []"
    unfolding filter_empty_conv using sin_mencion_resto [OF dig fijos] by blast
  have p: "filter (contiene n) (errores_paciente d) =
     filter (contiene n) (si (vacio (get d ''telefono_paciente''))
        (lit ''Tel'' @ [233] @ lit ''fono de contacto es obligatorio''))"
    using pac by (simp add: errores_paciente_def filter_si)
  from r p show ?thesis unfolding errores_de_paciente [OF q] by simp
qed

lemma mencion_telefono:
  "(\<forall>c\<in>set (lit ''Tel'' @ [233] @ lit ''fono''). \<not> es_digito c)
   \<and> (\<forall>e\<in>set
       [lit ''El correo electr'' @ [243] @ lit ''nico es obligatorio'',
        lit ''Debe especificar el motivo del cambio de alquiler'',
        lit ''Debe describir la falla cr'' @ [237] @ lit ''tica que justifica el cambio'',
        error_opcion, error_equipos,
        lit ''La marca del equipo '', lit '' es obligatoria'',
        lit ''El modelo del equipo '', lit '' es obligatorio'',
        lit ''El n'' @ [250] @ lit ''mero de serie del equipo ''].
         \<not> contiene (lit ''Tel'' @ [233] @ lit ''fono'') e)
   \<and> (\<forall>e\<in>set
       [lit ''Nombre y Apellido es obligatorio'', lit ''Origen del equipo es obligatorio'',
        lit ''Motivo de la solicitud es obligatorio''].
         \<not> contiene (lit ''Tel'' @ [233] @ lit ''fono'') e)
   \<and> contiene (lit ''Tel'' @ [233] @ lit ''fono'')
        (lit ''Tel'' @ [233] @ lit ''fono de contacto es obligatorio'')"
  by code_simp

lemma mencion_distribuidor:
  "\<forall>n\<in>set [lit ''Fantas'' @ [237] @ lit ''a'', lit ''Raz'' @ [243] @ lit ''n Social'',
             lit ''CUIT'', lit ''Nombre de contacto'', lit ''Comercial'', lit ''comercial'',
             lit ''t'' @ [233] @ lit ''cnico'', lit ''Distribuidor''].
     (\<forall>c\<in>set n. \<not> es_digito c)
   \<and> (\<forall>e\<in>set
       [lit ''El correo electr'' @ [243] @ lit ''nico es obligatorio'',
        lit ''Debe especificar el motivo del cambio de alquiler'',
        lit ''Debe describir la falla cr'' @ [237] @ lit ''tica que justifica el cambio'',
        error_opcion, error_equipos,
        lit ''La marca del equipo '', lit '' es obligatoria'',
        lit ''El modelo del equipo '', lit '' es obligatorio'',
        lit ''El n'' @ [250] @ lit ''mero de serie del equipo ''].
         \<not> contiene n e)
   \<and> (\<forall>e\<in>set
       [lit ''Nombre y Apellido es obligatorio'', lit ''Origen del equipo es obligatorio'',
        lit ''Motivo de la solicitud es obligatorio'']. \<not> contiene n e)
   \<and> \<not> contiene n (lit ''Tel'' @ [233] @ lit ''fono de contacto es obligatorio'')"
  by code_simp


subsection \<open>Results on the validator\<close>

lemma filtro_vacio:
  "\<forall>eq\<in>set l. \<not> equipo_valido eq \<Longrightarrow> filter equipo_valido l = []"
  by (induction l) auto

text \<open>
  C6. When the equipment list is absent, empty, or holds only entries whose type is
  unset or the placeholder, the error list contains the error that asks for at least one
  equipment, whatever the other fields are, and the submission is not valid.
\<close>

theorem sin_equipos_invalida:
  "\<forall>eq\<in>set (case equipos d of None \<Rightarrow> [] | Some l \<Rightarrow> l).
       vacio (eq (lit ''tipo_equipo'')) \<or> eq (lit ''tipo_equipo'') = Some (lit ''Seleccionar tipo...'')
   \<Longrightarrow> error_equipos \<in> set (snd (validar_campos_obligatorios d))
       \<and> \<not> fst (validar_campos_obligatorios d)"
proof -
  assume h: "\<forall>eq\<in>set (case equipos d of None \<Rightarrow> [] | Some l \<Rightarrow> l).
       vacio (eq (lit ''tipo_equipo'')) \<or> eq (lit ''tipo_equipo'') = Some (lit ''Seleccionar tipo...'')"
  then have "filter equipo_valido (case equipos d of None \<Rightarrow> [] | Some l \<Rightarrow> l) = []"
    by (intro filtro_vacio) (auto simp: equipo_valido_def)
  then have "errores_equipos d = [error_equipos]"
    by (simp add: errores_equipos_def)
  then have "error_equipos \<in> set (errores_de d)"
    by (simp add: errores_de_def)
  then show ?thesis
    by (auto simp: validar_campos_obligatorios_def Let_def)
qed

theorem sin_equipos_invalida_witness:
  "list_all (\<lambda>eq. vacio (eq (lit ''tipo_equipo''))
                 \<or> eq (lit ''tipo_equipo'') = Some (lit ''Seleccionar tipo...''))
     (case equipos sin_equipo of None \<Rightarrow> [] | Some l \<Rightarrow> l)
   \<and> error_equipos \<in> set (snd (validar_campos_obligatorios sin_equipo))
   \<and> \<not> fst (validar_campos_obligatorios sin_equipo)"
proof -
  have h: "\<forall>eq\<in>set (case equipos sin_equipo of None \<Rightarrow> [] | Some l \<Rightarrow> l).
       vacio (eq (lit ''tipo_equipo''))
       \<or> eq (lit ''tipo_equipo'') = Some (lit ''Seleccionar tipo...'')"
    by (simp add: sin_equipo_def solicitud_demo_def vacio_def)
  from sin_equipos_invalida [OF h] h show ?thesis unfolding list_all_iff by blast
qed

lemma errores_enumerados_uno: "errores_enumerados i [eq] = errores_equipo i eq"
  by simp

text \<open>
  C4. When the reason of the request is technical service or post-sale service, the
  error that asks to select an option is reported exactly when no issue is selected and
  the free-text detail is blank after stripping. A submission of a distributor with the
  e-mail and every distributor field present, one complete equipment entry and no issue
  selected is valid with no error when the detail is not blank, and yields exactly that
  one error when the detail is blank.
\<close>

theorem servicio_requiere_detalle:
  assumes "get d ''motivo_solicitud'' = Some m"
    and "m = Servicio_Tecnico \<or> m = Servicio_Post_Venta"
  shows "(error_opcion \<in> set (snd (validar_campos_obligatorios d)) \<longleftrightarrow>
            (case fallas_problemas d of None \<Rightarrow> [] | Some l \<Rightarrow> l) = []
            \<and> strip (get_o d ''detalle_fallo'') = [])
     \<and> (get d ''quien_completa'' = Some (lit ''Distribuidor'')
          \<and> \<not> vacio (get d ''email'')
          \<and> \<not> vacio (get d ''nombre_fantasia'')
          \<and> \<not> vacio (get d ''razon_social'')
          \<and> \<not> vacio (get d ''cuit'')
          \<and> \<not> vacio (get d ''contacto_nombre'')
          \<and> \<not> vacio (get d ''contacto_telefono'')
          \<and> \<not> vacio (get d ''comercial_syemed'')
          \<and> get d ''comercial_syemed'' \<noteq> Some (lit ''Seleccionar comercial...'')
          \<and> \<not> vacio (get d ''contacto_tecnico'')
          \<and> equipos d = Some [eq]
          \<and> equipo_valido eq
          \<and> \<not> vacio (eq (lit ''marca''))
          \<and> eq (lit ''marca'') \<noteq> Some (lit ''Seleccionar marca...'')
          \<and> \<not> vacio (eq (lit ''modelo''))
          \<and> eq (lit ''modelo'') \<noteq> Some (lit ''Seleccionar modelo...'')
          \<and> \<not> vacio (eq (lit ''numero_serie''))
          \<and> (case fallas_problemas d of None \<Rightarrow> [] | Some l \<Rightarrow> l) = []
        \<longrightarrow> validar_campos_obligatorios d =
              (if strip (get_o d ''detalle_fallo'') = [] then (False, [error_opcion])
               else (True, [])))"
proof (intro conjI impI)
  show "error_opcion \<in> set (snd (validar_campos_obligatorios d)) \<longleftrightarrow>
            (case fallas_problemas d of None \<Rightarrow> [] | Some l \<Rightarrow> l) = []
            \<and> strip (get_o d ''detalle_fallo'') = []"
    by (simp add: validar_campos_obligatorios_def Let_def opcion_en_errores
          errores_motivo_servicio [OF assms] en_si)
next
  assume c: "get d ''quien_completa'' = Some (lit ''Distribuidor'')
          \<and> \<not> vacio (get d ''email'')
          \<and> \<not> vacio (get d ''nombre_fantasia'')
          \<and> \<not> vacio (get d ''razon_social'')
          \<and> \<not> vacio (get d ''cuit'')
          \<and> \<not> vacio (get d ''contacto_nombre'')
          \<and> \<not> vacio (get d ''contacto_telefono'')
          \<and> \<not> vacio (get d ''comercial_syemed'')
          \<and> get d ''comercial_syemed'' \<noteq> Some (lit ''Seleccionar comercial...'')
          \<and> \<not> vacio (get d ''contacto_tecnico'')
          \<and> equipos d = Some [eq]
          \<and> equipo_valido eq
          \<and> \<not> vacio (eq (lit ''marca''))
          \<and> eq (lit ''marca'') \<noteq> Some (lit ''Seleccionar marca...'')
          \<and> \<not> vacio (eq (lit ''modelo''))
          \<and> eq (lit ''modelo'') \<noteq> Some (lit ''Seleccionar modelo...'')
          \<and> \<not> vacio (eq (lit ''numero_serie''))
          \<and> (case fallas_problemas d of None \<Rightarrow> [] | Some l \<Rightarrow> l) = []"
  have q: "get_o d ''quien_completa'' = lit ''Distribuidor''"
    using c by (simp add: get_def get_o_def)
  have nq: "\<not> vacio (get d ''quien_completa'')"
    using c by (simp add: vacio_def lit_def)
  have nc: "lit ''Distribuidor'' \<noteq> lit ''Colaborador de Syemed''"
    by (simp add: lit_def)
  have nm: "\<not> vacio (get d ''motivo_solicitud'')"
    using assms by (auto simp: vacio_def Servicio_Tecnico_def Servicio_Post_Venta_def lit_def)
  have dist: "errores_distribuidor d = []"
    using c nm by (simp add: errores_distribuidor_def si_falso)
  have eqs: "errores_equipos d = []"
    using c by (simp add: errores_equipos_def errores_equipo_def si_falso)
  have "errores_de d = errores_motivo d"
    using c nq by (simp add: errores_de_def q nc dist eqs si_falso)
  then show "validar_campos_obligatorios d =
              (if strip (get_o d ''detalle_fallo'') = [] then (False, [error_opcion])
               else (True, []))"
    using c by (simp add: validar_campos_obligatorios_def errores_motivo_servicio [OF assms] si_def)
qed

theorem servicio_requiere_detalle_witness:
  "get solicitud_demo ''motivo_solicitud'' = Some Servicio_Tecnico
   \<and> validar_campos_obligatorios solicitud_demo = (True, [])
   \<and> get sin_detalle ''motivo_solicitud'' = Some Servicio_Tecnico
   \<and> validar_campos_obligatorios sin_detalle = (False, [error_opcion])"
  using servicio_requiere_detalle [of solicitud_demo Servicio_Tecnico equipo_demo]
        servicio_requiere_detalle [of sin_detalle Servicio_Tecnico equipo_demo]
  by (simp add: solicitud_demo_def equipo_demo_def sin_detalle_def get_def get_o_def lit_def
        vacio_def Servicio_Tecnico_def Servicio_Post_Venta_def equipo_valido_def strip_def
        es_espacio_def)

text \<open>
  C5. For a submission completed by a patient whose telephone is missing, the error
  list is the e-mail error, the errors of the patient branch, of the reason and of the
  equipment, in this order. Exactly one error of the list mentions the telephone, and no
  error mentions a field that only the distributor branch requires: trade name, legal
  name, CUIT, contact name, sales contact or technical contact, nor the distributor.
\<close>

theorem paciente_sin_telefono:
  assumes q: "get d ''quien_completa'' = Some (lit ''Paciente/Particular'')"
    and t: "vacio (get d ''telefono_paciente'')"
  shows "snd (validar_campos_obligatorios d) =
            si (vacio (get d ''email''))
               (lit ''El correo electr'' @ [243] @ lit ''nico es obligatorio'')
            @ errores_paciente d @ errores_motivo d @ errores_equipos d
     \<and> length (filter (contiene (lit ''Tel'' @ [233] @ lit ''fono''))
                   (snd (validar_campos_obligatorios d))) = 1
     \<and> (\<forall>e\<in>set (snd (validar_campos_obligatorios d)).
          \<forall>n\<in>set [lit ''Fantas'' @ [237] @ lit ''a'', lit ''Raz'' @ [243] @ lit ''n Social'',
                   lit ''CUIT'', lit ''Nombre de contacto'', lit ''Comercial'', lit ''comercial'',
                   lit ''t'' @ [233] @ lit ''cnico'', lit ''Distribuidor'']. \<not> contiene n e)"
proof (intro conjI)
  have s: "snd (validar_campos_obligatorios d) = errores_de d"
    by (simp add: validar_campos_obligatorios_def Let_def)
  show "snd (validar_campos_obligatorios d) =
            si (vacio (get d ''email''))
               (lit ''El correo electr'' @ [243] @ lit ''nico es obligatorio'')
            @ errores_paciente d @ errores_motivo d @ errores_equipos d"
    unfolding s by (rule errores_de_paciente [OF q])
  have "filter (contiene (lit ''Tel'' @ [233] @ lit ''fono'')) (errores_de d) =
     filter (contiene (lit ''Tel'' @ [233] @ lit ''fono''))
       (si (vacio (get d ''telefono_paciente''))
          (lit ''Tel'' @ [233] @ lit ''fono de contacto es obligatorio''))"
    using mencion_telefono by (intro menciones_paciente [OF q]) blast+
  also have "\<dots> = [lit ''Tel'' @ [233] @ lit ''fono de contacto es obligatorio'']"
    using t mencion_telefono by (simp add: filter_si)
  finally show "length (filter (contiene (lit ''Tel'' @ [233] @ lit ''fono''))
                   (snd (validar_campos_obligatorios d))) = 1"
    unfolding s by simp
  show "\<forall>e\<in>set (snd (validar_campos_obligatorios d)).
          \<forall>n\<in>set [lit ''Fantas'' @ [237] @ lit ''a'', lit ''Raz'' @ [243] @ lit ''n Social'',
                   lit ''CUIT'', lit ''Nombre de contacto'', lit ''Comercial'', lit ''comercial'',
                   lit ''t'' @ [233] @ lit ''cnico'', lit ''Distribuidor'']. \<not> contiene n e"
  proof (intro ballI)
    fix e n
    assume e: "e \<in> set (snd (validar_campos_obligatorios d))"
      and n: "n \<in> set [lit ''Fantas'' @ [237] @ lit ''a'', lit ''Raz'' @ [243] @ lit ''n Social'',
                   lit ''CUIT'', lit ''Nombre de contacto'', lit ''Comercial'', lit ''comercial'',
                   lit ''t'' @ [233] @ lit ''cnico'', lit ''Distribuidor'']"
    note m = mencion_distribuidor [rule_format, OF n]
    have "filter (contiene n) (errores_de d) =
       filter (contiene n) (si (vacio (get d ''telefono_paciente''))
          (lit ''Tel'' @ [233] @ lit ''fono de contacto es obligatorio''))"
      using m by (intro menciones_paciente [OF q]) blast+
    also have "\<dots> = []" using m by (simp add: filter_si)
    finally show "\<not> contiene n e" using e unfolding s filter_empty_conv by blast
  qed
qed

theorem paciente_sin_telefono_witness:
  "get paciente_demo ''quien_completa'' = Some (lit ''Paciente/Particular'')
   \<and> vacio (get paciente_demo ''telefono_paciente'')
   \<and> snd (validar_campos_obligatorios paciente_demo)
       = [lit ''Tel'' @ [233] @ lit ''fono de contacto es obligatorio'']
   \<and> length (filter (contiene (lit ''Tel'' @ [233] @ lit ''fono''))
                (snd (validar_campos_obligatorios paciente_demo))) = 1
   \<and> list_all
        (\<lambda>e. list_all (\<lambda>n. \<not> contiene n e)
               [lit ''Fantas'' @ [237] @ lit ''a'', lit ''Raz'' @ [243] @ lit ''n Social'',
                lit ''CUIT'', lit ''Nombre de contacto'', lit ''Comercial'', lit ''comercial'',
                lit ''t'' @ [233] @ lit ''cnico'', lit ''Distribuidor''])
        (snd (validar_campos_obligatorios paciente_demo))"
proof -
  have q: "get paciente_demo ''quien_completa'' = Some (lit ''Paciente/Particular'')"
    by (simp add: paciente_demo_def get_def lit_def)
  have t: "vacio (get paciente_demo ''telefono_paciente'')"
    by (simp add: paciente_demo_def get_def lit_def vacio_def)
  have v: "snd (validar_campos_obligatorios paciente_demo)
       = [lit ''Tel'' @ [233] @ lit ''fono de contacto es obligatorio'']"
    by code_simp
  from paciente_sin_telefono [OF q t] q t v show ?thesis unfolding list_all_iff by blast
qed

end
